theory Spec2Isabelle
  imports Complex_Main
begin

section \<open>Statistics chart widget: data model\<close>

text \<open>
  The development follows \<^verbatim>\<open>Telegram/SourceFiles/statistics/chart_widget.cpp\<close>.
  Conventions of the embedding:
  \<^item> \<^verbatim>\<open>float64\<close> is the type \<open>real\<close>: arithmetic is exact, rounding is not modelled.
    The one division whose divisor can be zero (the ratio \<open>k\<close> of
    \<^verbatim>\<open>setXPercentageLimits\<close>) is modelled with the IEEE special values written out.
  \<^item> \<^verbatim>\<open>int\<close> and \<^verbatim>\<open>crl::time\<close> are \<open>int\<close>; the code only compares, adds and subtracts
    small values, and the range of the 32-bit values is a hypothesis where it matters.
  \<^item> member functions take the object as their last argument and return the updated one.
\<close>

record Limits =
  min_v :: real
  max_v :: real

subsection \<open>Interpolated values\<close>

text \<open>
  Modelled from the spec: \<^verbatim>\<open>anim::value\<close> (declared in \<^verbatim>\<open>ui/effects/animation_value.h\<close>)
  is an interpolated value: the value held when the animation started, the current value
  and the target. \<^verbatim>\<open>start\<close> re-targets from the current value, \<^verbatim>\<open>update\<close> applies an
  easing function between the start value and the target, \<^verbatim>\<open>finish\<close> snaps to the target.
\<close>

record anim_value =
  a_from :: real
  a_cur :: real
  a_to :: real

definition anim_default :: anim_value where
  "anim_default = \<lparr>a_from = 0, a_cur = 0, a_to = 0\<rparr>"

definition anim_value2 :: "real \<Rightarrow> real \<Rightarrow> anim_value" where
  "anim_value2 from to = \<lparr>a_from = from, a_cur = from, a_to = to\<rparr>"

definition anim_start :: "real \<Rightarrow> anim_value \<Rightarrow> anim_value" where
  "anim_start to v = v\<lparr>a_from := a_cur v, a_to := to\<rparr>"

definition anim_finish :: "anim_value \<Rightarrow> anim_value" where
  "anim_finish v = v\<lparr>a_cur := a_to v, a_from := a_to v\<rparr>"

definition anim_update :: "real \<Rightarrow> (real \<Rightarrow> real \<Rightarrow> real) \<Rightarrow> anim_value \<Rightarrow> anim_value" where
  "anim_update dt func v = v\<lparr>a_cur := a_from v + func (a_to v - a_from v) dt\<rparr>"

text \<open>
  Modelled from the spec: the two easing functions named by the code, \<^verbatim>\<open>anim::linear\<close>
  and \<^verbatim>\<open>anim::easeInCubic\<close> (an accelerating curve), as functions of the distance
  and the progress.
\<close>

definition linear :: "real \<Rightarrow> real \<Rightarrow> real" where
  "linear delta dt = delta * dt"

definition easeInCubic :: "real \<Rightarrow> real \<Rightarrow> real" where
  "easeInCubic delta dt = delta * (dt * dt * dt)"

subsection \<open>Chart data\<close>

text \<open>
  Modelled from the spec: the series store \<^verbatim>\<open>Data::StatisticalChart\<close> is declared outside
  \<^verbatim>\<open>chart_widget.cpp\<close>. A line holds its values behind a range-query structure; the two
  index lookups are fields of the record, so that every result holds for any lookup.
  \<open>rMaxQ\<close> and \<open>rMinQ\<close> answer the maximum and the minimum of a line over the index range
  \<open>[from, to]\<close>, both ends included.
\<close>

record Line =
  segmentTree :: "int list"

record StatisticalChart =
  xPercentage :: "real list"
  lines :: "Line list"
  findStartIndex :: "real \<Rightarrow> int"
  findEndIndex :: "int \<Rightarrow> real \<Rightarrow> int"

definition INT_MAX :: int where
  "INT_MAX = 2147483647"

definition INT_MIN :: int where
  "INT_MIN = - 2147483648"

definition segment :: "int list \<Rightarrow> int \<Rightarrow> int \<Rightarrow> int list" where
  "segment ys from to = take (nat (to - from + 1)) (drop (nat from) ys)"

definition rMaxQ :: "int list \<Rightarrow> int \<Rightarrow> int \<Rightarrow> int" where
  "rMaxQ ys from to = fold max (segment ys from to) INT_MIN"

definition rMinQ :: "int list \<Rightarrow> int \<Rightarrow> int \<Rightarrow> int" where
  "rMinQ ys from to = fold min (segment ys from to) INT_MAX"

text \<open>The two aggregations over all lines, as the loops of the source.\<close>

definition FindMaxValue :: "StatisticalChart \<Rightarrow> int \<Rightarrow> int \<Rightarrow> int" where
  "FindMaxValue chartData startXIndex endXIndex =
     fold (\<lambda>l maxValue. max (rMaxQ (segmentTree l) startXIndex endXIndex) maxValue)
       (lines chartData) 0"

definition FindMinValue :: "StatisticalChart \<Rightarrow> int \<Rightarrow> int \<Rightarrow> int" where
  "FindMinValue chartData startXIndex endXIndex =
     fold (\<lambda>l minValue. min (rMinQ (segmentTree l) startXIndex endXIndex) minValue)
       (lines chartData) INT_MAX"

section \<open>The animation controller\<close>

text \<open>
  \<open>basic_animation\<close> stands for \<^verbatim>\<open>Ui::Animations::Basic\<close>: whether the tick loop runs and
  the clock value at which it was started.
\<close>

record basic_animation =
  animating :: bool
  started :: int

record ChartAnimationController =
  animation :: basic_animation
  lastUserInteracted :: int
  yAnimationStartedAt :: int
  alphaAnimationStartedAt :: int
  animValueXMin :: anim_value
  animValueXMax :: anim_value
  animValueYMin :: anim_value
  animValueYMax :: anim_value
  animValueYAlpha :: anim_value
  finalHeightLimits :: Limits
  dtYSpeed :: real
  dtCurrent :: Limits

text \<open>
  Modelled from the spec: the member initialisers are in the header, which is not part of
  the source at hand; a freshly constructed controller is idle with every value zero.
\<close>

definition ChartAnimationController_new :: ChartAnimationController where
  "ChartAnimationController_new =
     \<lparr>animation = \<lparr>animating = False, started = 0\<rparr>,
      lastUserInteracted = 0, yAnimationStartedAt = 0, alphaAnimationStartedAt = 0,
      animValueXMin = anim_default, animValueXMax = anim_default,
      animValueYMin = anim_default, animValueYMax = anim_default,
      animValueYAlpha = anim_default,
      finalHeightLimits = \<lparr>min_v = 0, max_v = 0\<rparr>,
      dtYSpeed = 0, dtCurrent = \<lparr>min_v = 0, max_v = 0\<rparr>\<rparr>"

text \<open>
  \<^verbatim>\<open>start()\<close>: the argument \<open>clock\<close> is the value of \<^verbatim>\<open>crl::now()\<close> that
  \<^verbatim>\<open>_animation.start()\<close> records.
\<close>

definition start :: "int \<Rightarrow> ChartAnimationController \<Rightarrow> ChartAnimationController" where
  "start clock c =
     (if \<not> animating (animation c)
      then c\<lparr>animation := \<lparr>animating = True, started = clock\<rparr>\<rparr>
      else c)"

subsection \<open>The ratio \<open>k\<close> and the easing speed\<close>

text \<open>
  The quotient of two finite doubles, with the results of a zero divisor kept apart:
  comparisons with a NaN are false, and the reciprocal of an infinity is zero.
\<close>

datatype quotient = Finite real | PosInf | NegInf | NaN

definition fdiv :: "real \<Rightarrow> real \<Rightarrow> quotient" where
  "fdiv a b =
     (if b \<noteq> 0 then Finite (a / b)
      else if a > 0 then PosInf
      else if a < 0 then NegInf
      else NaN)"

fun q_gt :: "quotient \<Rightarrow> real \<Rightarrow> bool" where
  "q_gt (Finite x) r = (x > r)"
| "q_gt PosInf r = True"
| "q_gt NegInf r = False"
| "q_gt NaN r = False"

fun q_lt :: "quotient \<Rightarrow> real \<Rightarrow> bool" where
  "q_lt (Finite x) r = (x < r)"
| "q_lt PosInf r = False"
| "q_lt NegInf r = True"
| "q_lt NaN r = False"

fun q_recip :: "quotient \<Rightarrow> quotient" where
  "q_recip (Finite x) = fdiv 1 x"
| "q_recip PosInf = Finite 0"
| "q_recip NegInf = Finite 0"
| "q_recip NaN = NaN"

definition kDtHeightSpeed1 :: real where "kDtHeightSpeed1 = 0.03 / 2"
definition kDtHeightSpeed2 :: real where "kDtHeightSpeed2 = 0.03 / 2"
definition kDtHeightSpeed3 :: real where "kDtHeightSpeed3 = 0.045 / 2"
definition kDtHeightSpeedThreshold1 :: real where "kDtHeightSpeedThreshold1 = 0.7"
definition kDtHeightSpeedThreshold2 :: real where "kDtHeightSpeedThreshold2 = 0.1"
definition kDtHeightInstantThreshold :: real where "kDtHeightInstantThreshold = 0.97"

text \<open>\<open>heightRatio\<close> is the local \<open>k\<close> after the inversion.\<close>

definition heightRatio :: "ChartAnimationController \<Rightarrow> quotient" where
  "heightRatio c =
     (let k = fdiv (a_cur (animValueYMax c) - a_cur (animValueYMin c))
                   (max_v (finalHeightLimits c) - min_v (finalHeightLimits c))
      in if q_gt k 1 then q_recip k else k)"

definition chooseHeightSpeed :: "ChartAnimationController \<Rightarrow> ChartAnimationController" where
  "chooseHeightSpeed c =
     (let k = heightRatio c;
          c1 = c\<lparr>dtYSpeed :=
                 (if q_gt k kDtHeightSpeedThreshold1 then kDtHeightSpeed1
                  else if q_lt k kDtHeightSpeedThreshold2 then kDtHeightSpeed2
                  else kDtHeightSpeed3)\<rparr>
      in if q_lt k kDtHeightInstantThreshold
         then c1\<lparr>dtCurrent := \<lparr>min_v = 0, max_v = 0\<rparr>\<rparr>
         else c1)"

subsection \<open>\<^verbatim>\<open>setXPercentageLimits\<close>, \<^verbatim>\<open>finish\<close>, \<^verbatim>\<open>resetAlpha\<close>\<close>

definition retargetX :: "Limits \<Rightarrow> int \<Rightarrow> ChartAnimationController \<Rightarrow> ChartAnimationController" where
  "retargetX xPercentageLimits now c =
     c\<lparr>animValueXMin := anim_start (min_v xPercentageLimits) (animValueXMin c),
       animValueXMax := anim_start (max_v xPercentageLimits) (animValueXMax c),
       lastUserInteracted := now\<rparr>"

definition retargetY :: "StatisticalChart \<Rightarrow> ChartAnimationController \<Rightarrow> ChartAnimationController" where
  "retargetY chartData c =
     (let startXIndex = findStartIndex chartData (a_to (animValueXMin c));
          endXIndex = findEndIndex chartData startXIndex (a_to (animValueXMax c));
          final = \<lparr>min_v = real_of_int (FindMinValue chartData startXIndex endXIndex),
                   max_v = real_of_int (FindMaxValue chartData startXIndex endXIndex)\<rparr>
      in c\<lparr>finalHeightLimits := final,
           animValueYMin := anim_value2 (a_cur (animValueYMin c)) (min_v final),
           animValueYMax := anim_value2 (a_cur (animValueYMax c)) (max_v final)\<rparr>)"

definition setXPercentageLimits ::
  "StatisticalChart \<Rightarrow> Limits \<Rightarrow> int \<Rightarrow> int \<Rightarrow> ChartAnimationController
     \<Rightarrow> ChartAnimationController" where
  "setXPercentageLimits chartData xPercentageLimits now clock c =
     (if a_to (animValueXMin c) = min_v xPercentageLimits
         \<and> a_to (animValueXMax c) = max_v xPercentageLimits
      then c
      else chooseHeightSpeed (retargetY chartData (retargetX xPercentageLimits now (start clock c))))"

definition finish :: "ChartAnimationController \<Rightarrow> ChartAnimationController" where
  "finish c =
     c\<lparr>animation := (animation c)\<lparr>animating := False\<rparr>,
       animValueXMin := anim_finish (animValueXMin c),
       animValueXMax := anim_finish (animValueXMax c),
       animValueYMin := anim_finish (animValueYMin c),
       animValueYMax := anim_finish (animValueYMax c),
       animValueYAlpha := anim_finish (animValueYAlpha c)\<rparr>"

definition resetAlpha :: "ChartAnimationController \<Rightarrow> ChartAnimationController" where
  "resetAlpha c = c\<lparr>alphaAnimationStartedAt := 0, animValueYAlpha := anim_value2 0 1\<rparr>"

definition currentXLimits :: "ChartAnimationController \<Rightarrow> Limits" where
  "currentXLimits c = \<lparr>min_v = a_cur (animValueXMin c), max_v = a_cur (animValueXMax c)\<rparr>"

definition currentHeightLimits :: "ChartAnimationController \<Rightarrow> Limits" where
  "currentHeightLimits c = \<lparr>min_v = a_cur (animValueYMin c), max_v = a_cur (animValueYMax c)\<rparr>"

section \<open>Gridline groups\<close>

text \<open>
  Modelled from the spec: \<^verbatim>\<open>ChartHorizontalLinesData\<close> is declared outside
  \<^verbatim>\<open>chart_widget.cpp\<close>. A group has an ordered sequence of gridlines (an absolute value, a
  relative position and a caption each), a live alpha and a fixed alpha.
  \<^verbatim>\<open>computeRelative\<close> recomputes the relative position of every gridline against the
  given maximum and minimum and touches nothing else. The constructor is a parameter
  \<open>mk\<close> (maximum, minimum, flag) of the functions that build a group.
\<close>

record horizontal_line =
  absoluteValue :: real
  relativeValue :: real
  caption :: string

record ChartHorizontalLinesData =
  lines_h :: "horizontal_line list"
  alpha :: real
  fixedAlpha :: real

type_synonym group_ctor = "real \<Rightarrow> real \<Rightarrow> bool \<Rightarrow> ChartHorizontalLinesData"

definition computeRelative ::
  "real \<Rightarrow> real \<Rightarrow> ChartHorizontalLinesData \<Rightarrow> ChartHorizontalLinesData" where
  "computeRelative newMaxHeight newMinHeight g =
     g\<lparr>lines_h :=
         map (\<lambda>line. line\<lparr>relativeValue :=
                1 - (absoluteValue line - newMinHeight) / (newMaxHeight - newMinHeight)\<rparr>)
           (lines_h g)\<rparr>"

text \<open>
  Reading \<^verbatim>\<open>front()\<close> or \<^verbatim>\<open>back()\<close> of an empty vector and calling \<^verbatim>\<open>std::clamp\<close>
  with a lower bound above the upper bound are undefined behaviour; the model returns
  an error value there.
\<close>

datatype error = EmptyAccess | ClampBounds

text \<open>\<^verbatim>\<open>addHorizontalLine\<close>, on the list \<^verbatim>\<open>_horizontalLines\<close>.\<close>

definition addHorizontalLine ::
  "group_ctor \<Rightarrow> Limits \<Rightarrow> bool \<Rightarrow> ChartHorizontalLinesData list
     \<Rightarrow> ChartHorizontalLinesData list" where
  "addHorizontalLine mk newHeight animated horizontalLines =
     (let newLinesData = mk (max_v newHeight) (min_v newHeight) True;
          cleared = (if \<not> animated then [] else horizontalLines);
          frozen = map (\<lambda>horizontalLine. horizontalLine\<lparr>fixedAlpha := alpha horizontalLine\<rparr>)
                     cleared
      in if \<not> animated then frozen @ [newLinesData\<lparr>alpha := 1\<rparr>]
         else frozen @ [newLinesData])"

section \<open>\<^verbatim>\<open>tick\<close>\<close>

text \<open>
  The state \<^verbatim>\<open>tick\<close> works on is the controller together with the vector it receives
  by reference. Firing \<^verbatim>\<open>_heightAnimationStarts\<close> runs the subscribers at once, inside
  \<^verbatim>\<open>tick\<close>; the subscriber is the parameter \<open>fire\<close>.
\<close>

type_synonym scene = "ChartAnimationController \<times> ChartHorizontalLinesData list"

definition kExpandingDelay :: int where "kExpandingDelay = 100"
definition kXExpandingDuration :: real where "kXExpandingDuration = 200"
definition kAlphaExpandingDuration :: real where "kAlphaExpandingDuration = 200"

text \<open>The statements of \<^verbatim>\<open>tick\<close> up to the update of \<^verbatim>\<open>_dtCurrent\<close>.\<close>

definition tick_begin :: "int \<Rightarrow> (scene \<Rightarrow> scene) \<Rightarrow> scene \<Rightarrow> scene" where
  "tick_begin now fire sc =
     (let (c, ls) = sc;
          (c1, ls1) =
            (if yAnimationStartedAt c = 0 \<and> now - lastUserInteracted c \<ge> kExpandingDelay
             then (let (cf, lsf) = fire (c, ls)
                   in (cf\<lparr>yAnimationStartedAt := lastUserInteracted cf + kExpandingDelay\<rparr>, lsf))
             else (c, ls));
          c2 = (if alphaAnimationStartedAt c1 = 0 then c1\<lparr>alphaAnimationStartedAt := now\<rparr>
                else c1);
          c3 = c2\<lparr>dtCurrent :=
                 \<lparr>min_v = min (min_v (dtCurrent c2) + dtYSpeed c2) 1,
                  max_v = min (max_v (dtCurrent c2) + dtYSpeed c2) 1\<rparr>\<rparr>
      in (c3, ls1))"

definition dtX :: "int \<Rightarrow> ChartAnimationController \<Rightarrow> real" where
  "dtX now c = min (real_of_int (now - started (animation c)) / kXExpandingDuration) 1"

definition dtAlpha :: "int \<Rightarrow> ChartAnimationController \<Rightarrow> real" where
  "dtAlpha now c =
     min (real_of_int (now - alphaAnimationStartedAt c) / kAlphaExpandingDuration) 1"

definition isFinished :: "anim_value \<Rightarrow> bool" where
  "isFinished anim = (a_cur anim = a_to anim)"

definition xFinished :: "ChartAnimationController \<Rightarrow> bool" where
  "xFinished c = (isFinished (animValueXMin c) \<and> isFinished (animValueXMax c))"

definition yFinished :: "ChartAnimationController \<Rightarrow> bool" where
  "yFinished c = (isFinished (animValueYMin c) \<and> isFinished (animValueYMax c))"

definition alphaFinished :: "ChartAnimationController \<Rightarrow> bool" where
  "alphaFinished c = isFinished (animValueYAlpha c)"

text \<open>The check that stops the loop; it reads the newest group's first and last gridline.\<close>

definition tick_stop :: "scene \<Rightarrow> error + ChartAnimationController" where
  "tick_stop sc =
     (let (c, ls) = sc in
      if xFinished c \<and> yFinished c \<and> alphaFinished c
      then (if ls = [] then Inl EmptyAccess
            else let lines = lines_h (last ls) in
              if lines = [] then Inl EmptyAccess
              else if absoluteValue (hd lines) = a_to (animValueYMin c)
                      \<and> absoluteValue (last lines) = a_to (animValueYMax c)
                   then Inr (c\<lparr>animation := (animation c)\<lparr>animating := False\<rparr>\<rparr>)
                   else Inr c)
      else Inr c)"

definition tick_x :: "bool \<Rightarrow> real \<Rightarrow> ChartAnimationController \<Rightarrow> ChartAnimationController" where
  "tick_x xFin dt c =
     (if xFin
      then c\<lparr>animValueXMin := anim_finish (animValueXMin c),
             animValueXMax := anim_finish (animValueXMax c)\<rparr>
      else c\<lparr>animValueXMin := anim_update dt linear (animValueXMin c),
             animValueXMax := anim_update dt linear (animValueXMax c)\<rparr>)"

definition tick_y :: "real \<Rightarrow> scene \<Rightarrow> scene" where
  "tick_y dtA sc =
     (let (c, ls) = sc in
      if yAnimationStartedAt c \<noteq> 0
      then (let c1 = c\<lparr>animValueYMin :=
                         anim_update (min_v (dtCurrent c)) easeInCubic (animValueYMin c),
                       animValueYMax :=
                         anim_update (max_v (dtCurrent c)) easeInCubic (animValueYMax c),
                       animValueYAlpha := anim_update dtA easeInCubic (animValueYAlpha c)\<rparr>
            in (c1, map (computeRelative (a_cur (animValueYMax c1)) (a_cur (animValueYMin c1))) ls))
      else (c, ls))"

text \<open>The loop that retires groups from the front of the vector.\<close>

fun retire :: "ChartHorizontalLinesData list \<Rightarrow> ChartHorizontalLinesData list" where
  "retire (g # g' # rest) = (if alpha g = 0 then retire (g' # rest) else g # g' # rest)"
| "retire ls = ls"

definition tick_alpha :: "real \<Rightarrow> scene \<Rightarrow> error + ChartHorizontalLinesData list" where
  "tick_alpha dtA sc =
     (let (c, ls) = sc in
      if dtA \<ge> 0 \<and> dtA \<le> 1
      then (let v = a_cur (animValueYAlpha c);
                faded = map (\<lambda>horizontalLine.
                          horizontalLine\<lparr>alpha := fixedAlpha horizontalLine * (1 - v)\<rparr>) ls
            in if faded = [] then Inl EmptyAccess
               else let marked = butlast faded @ [(last faded)\<lparr>alpha := v\<rparr>]
                    in Inr (if v = 1 then retire marked else marked))
      else Inr ls)"

definition tick_end :: "bool \<Rightarrow> bool \<Rightarrow> ChartAnimationController \<Rightarrow> ChartAnimationController" where
  "tick_end yFin alphaFin c =
     (if yFin \<and> alphaFin then c\<lparr>alphaAnimationStartedAt := 0, yAnimationStartedAt := 0\<rparr>
      else c)"

definition tick_rest :: "int \<Rightarrow> scene \<Rightarrow> error + scene" where
  "tick_rest now sc =
     (let (c, ls) = sc;
          dx = dtX now c;
          dtA = dtAlpha now c;
          xFin = xFinished c;
          yFin = yFinished c;
          alphaFin = alphaFinished c
      in case tick_stop (c, ls) of
           Inl e \<Rightarrow> Inl e
         | Inr c1 \<Rightarrow>
             (let (c2, ls2) = tick_y dtA (tick_x xFin dx c1, ls)
              in case tick_alpha dtA (c2, ls2) of
                   Inl e \<Rightarrow> Inl e
                 | Inr ls3 \<Rightarrow> Inr (tick_end yFin alphaFin c2, ls3)))"

definition tick :: "int \<Rightarrow> (scene \<Rightarrow> scene) \<Rightarrow> scene \<Rightarrow> error + scene" where
  "tick now fire sc =
     (if \<not> animating (animation (fst sc)) then Inr sc
      else tick_rest now (tick_begin now fire sc))"

section \<open>The footer and its two handles\<close>

text \<open>
  A handle is an \<^verbatim>\<open>Ui::AbstractButton\<close>, of which the code uses the position and the
  width. \<open>start_s\<close> is the anonymous struct \<^verbatim>\<open>_start\<close>.
\<close>

record AbstractButton =
  b_x :: int
  b_y :: int
  b_width :: int

record drag_start =
  s_x :: int
  s_leftLimit :: int
  s_rightLimit :: int
  s_diffX :: int

record Footer =
  left :: AbstractButton
  right :: AbstractButton
  width :: int
  start_s :: drag_start

datatype handle = LeftHandle | RightHandle

text \<open>
  The events that pass the filter of \<^verbatim>\<open>handleDrag\<close>, with the x coordinate of the
  pointer: a move is delivered only while the handle is held down.
\<close>

datatype mouse_event = MouseMove int | MouseButtonPress int | MouseButtonRelease int

datatype footer_event = XPercentageLimitsChange Limits | UserInteractionFinished

text \<open>Modelled from the spec: \<^verbatim>\<open>rect::right\<close> is the right edge, position plus width.\<close>

definition rect_right :: "AbstractButton \<Rightarrow> int" where
  "rect_right b = b_x b + b_width b"

definition side_of :: "handle \<Rightarrow> Footer \<Rightarrow> AbstractButton" where
  "side_of side f = (case side of LeftHandle \<Rightarrow> left f | RightHandle \<Rightarrow> right f)"

definition side_move :: "handle \<Rightarrow> int \<Rightarrow> int \<Rightarrow> Footer \<Rightarrow> Footer" where
  "side_move side nx ny f =
     (case side of
        LeftHandle \<Rightarrow> f\<lparr>left := (left f)\<lparr>b_x := nx, b_y := ny\<rparr>\<rparr>
      | RightHandle \<Rightarrow> f\<lparr>right := (right f)\<lparr>b_x := nx, b_y := ny\<rparr>\<rparr>)"

text \<open>The two closures that each call of \<^verbatim>\<open>handleDrag\<close> receives.\<close>

definition leftLimit :: "handle \<Rightarrow> Footer \<Rightarrow> int" where
  "leftLimit side f = (case side of LeftHandle \<Rightarrow> 0 | RightHandle \<Rightarrow> rect_right (left f))"

definition rightLimit :: "handle \<Rightarrow> Footer \<Rightarrow> int" where
  "rightLimit side f =
     (case side of
        LeftHandle \<Rightarrow> b_x (right f) - b_width (left f)
      | RightHandle \<Rightarrow> width f - b_width (right f))"

definition std_clamp :: "int \<Rightarrow> int \<Rightarrow> int \<Rightarrow> error + int" where
  "std_clamp v lo hi =
     (if hi < lo then Inl ClampBounds
      else Inr (if v < lo then lo else if hi < v then hi else v))"

text \<open>
  The payload of the range-change event. The quotients are those of the reals; for a
  footer of width zero the doubles of the source are infinities or NaN.
\<close>

definition limitsChange :: "Footer \<Rightarrow> footer_event" where
  "limitsChange f =
     XPercentageLimitsChange
       \<lparr>min_v = real_of_int (b_x (left f)) / real_of_int (width f),
        max_v = real_of_int (rect_right (right f)) / real_of_int (width f)\<rparr>"

text \<open>
  One event on the handle \<open>side\<close>; \<open>ctrl\<close> is the value of \<^verbatim>\<open>base::IsCtrlPressed()\<close>.
  The result is the footer and the events fired, in order.
\<close>

definition handleDrag ::
  "handle \<Rightarrow> bool \<Rightarrow> mouse_event \<Rightarrow> Footer \<Rightarrow> error + (Footer \<times> footer_event list)" where
  "handleDrag side ctrl e f =
     (case e of
        MouseMove px \<Rightarrow>
          (if ctrl
           then (let diff = px - s_x (start_s f);
                     f1 = f\<lparr>left := (left f)\<lparr>b_x := b_x (left f) + diff,
                                             b_y := b_y (side_of side f)\<rparr>\<rparr>;
                     f2 = f1\<lparr>right := (right f1)\<lparr>b_x := b_x (right f1) + diff,
                                                b_y := b_y (side_of side f1)\<rparr>\<rparr>
                 in Inr (f2, [limitsChange f2]))
           else (let f1 = f\<lparr>start_s := (start_s f)\<lparr>s_diffX := px - s_x (start_s f)\<rparr>\<rparr>
                 in case std_clamp (b_x (side_of side f1) + (px - s_x (start_s f1)))
                           (s_leftLimit (start_s f1)) (s_rightLimit (start_s f1)) of
                      Inl er \<Rightarrow> Inl er
                    | Inr nextX \<Rightarrow>
                        (let f2 = side_move side nextX (b_y (side_of side f1)) f1
                         in Inr (f2, [limitsChange f2]))))
      | MouseButtonPress px \<Rightarrow>
          Inr (f\<lparr>start_s := (start_s f)\<lparr>s_x := px,
                                          s_leftLimit := leftLimit side f,
                                          s_rightLimit := rightLimit side f\<rparr>\<rparr>, [])
      | MouseButtonRelease px \<Rightarrow>
          Inr (f\<lparr>start_s := \<lparr>s_x = 0, s_leftLimit = 0, s_rightLimit = 0, s_diffX = 0\<rparr>\<rparr>,
               [UserInteractionFinished, limitsChange f]))"

text \<open>A sequence of events on one handle, each with the state of the modifier key.\<close>

fun handleDrags :: "handle \<Rightarrow> (bool \<times> mouse_event) list \<Rightarrow> Footer \<Rightarrow> error + Footer" where
  "handleDrags side [] f = Inr f"
| "handleDrags side ((ctrl, e) # es) f =
     (case handleDrag side ctrl e f of
        Inl er \<Rightarrow> Inl er
      | Inr (f1, fired) \<Rightarrow> handleDrags side es f1)"

section \<open>The chart view\<close>

record ChartWidget =
  chartData :: StatisticalChart
  animationController :: ChartAnimationController
  horizontalLines :: "ChartHorizontalLinesData list"
  lastHeightLimitsChanged :: int

definition kHeightLimitsUpdateTimeout :: int where
  "kHeightLimitsUpdateTimeout = 320"

text \<open>
  The subscriber of the merged streams \<^verbatim>\<open>heightAnimationStarts\<close> and
  \<^verbatim>\<open>userInteractionFinished\<close>.
\<close>

definition onInteractionFinished :: "group_ctor \<Rightarrow> int \<Rightarrow> scene \<Rightarrow> scene" where
  "onInteractionFinished mk clock sc =
     (let (c, ls) = sc;
          c1 = resetAlpha c;
          ls1 = addHorizontalLine mk (finalHeightLimits c1) True ls
      in (start clock c1, ls1))"

text \<open>The subscriber of \<^verbatim>\<open>xPercentageLimitsChange\<close>; \<open>now\<close> is its reading of the clock.\<close>

definition onXPercentageLimitsChange ::
  "group_ctor \<Rightarrow> Limits \<Rightarrow> int \<Rightarrow> int \<Rightarrow> ChartWidget \<Rightarrow> ChartWidget" where
  "onXPercentageLimitsChange mk xPercentageLimits now clock w =
     (let w1 = w\<lparr>animationController :=
                  setXPercentageLimits (chartData w) xPercentageLimits now clock
                    (animationController w)\<rparr>
      in if now - lastHeightLimitsChanged w1 < kHeightLimitsUpdateTimeout then w1
         else (let w2 = w1\<lparr>lastHeightLimitsChanged := now\<rparr>;
                   w3 = w2\<lparr>animationController := resetAlpha (animationController w2)\<rparr>
               in w3\<lparr>horizontalLines :=
                       addHorizontalLine mk (finalHeightLimits (animationController w3)) True
                         (horizontalLines w3)\<rparr>))"

definition setChartData ::
  "group_ctor \<Rightarrow> StatisticalChart \<Rightarrow> int \<Rightarrow> ChartWidget \<Rightarrow> error + ChartWidget" where
  "setChartData mk d clock w =
     (let w1 = w\<lparr>chartData := d\<rparr> in
      if xPercentage (chartData w1) = [] then Inl EmptyAccess
      else (let w2 = w1\<lparr>animationController :=
                         setXPercentageLimits (chartData w1)
                           \<lparr>min_v = hd (xPercentage (chartData w1)),
                            max_v = last (xPercentage (chartData w1))\<rparr>
                           0 clock (animationController w1)\<rparr>;
                w3 = w2\<lparr>animationController := finish (animationController w2)\<rparr>
            in Inr (w3\<lparr>horizontalLines :=
                         addHorizontalLine mk (finalHeightLimits (animationController w3)) False
                           (horizontalLines w3)\<rparr>)))"

text \<open>The first statement of \<^verbatim>\<open>paintEvent\<close>.\<close>

definition paintEvent_tick :: "group_ctor \<Rightarrow> int \<Rightarrow> ChartWidget \<Rightarrow> error + ChartWidget" where
  "paintEvent_tick mk now w =
     (case tick now (onInteractionFinished mk now) (animationController w, horizontalLines w) of
        Inl er \<Rightarrow> Inl er
      | Inr (c, ls) \<Rightarrow> Inr (w\<lparr>animationController := c, horizontalLines := ls\<rparr>))"

section \<open>Reference notions and example data\<close>

text \<open>
  The values of all lines in the index range \<open>[s, e]\<close>; their \<open>Min\<close> and \<open>Max\<close> are the
  true minimum and maximum the range queries are compared with. A range is valid for a
  chart when it lies inside every line, and the values are those of 32-bit integers.
\<close>

definition rangeValues :: "StatisticalChart \<Rightarrow> int \<Rightarrow> int \<Rightarrow> int set" where
  "rangeValues d s e = (\<Union>l \<in> set (lines d). set (segment (segmentTree l) s e))"

definition validRange :: "StatisticalChart \<Rightarrow> int \<Rightarrow> int \<Rightarrow> bool" where
  "validRange d s e =
     (\<forall>l \<in> set (lines d). 0 \<le> s \<and> s \<le> e \<and> e < int (length (segmentTree l)))"

definition int32Values :: "StatisticalChart \<Rightarrow> bool" where
  "int32Values d =
     (\<forall>l \<in> set (lines d). \<forall>v \<in> set (segmentTree l). INT_MIN \<le> v \<and> v \<le> INT_MAX)"

text \<open>
  A chart of one line with five samples at the fractions 0, 1/4, 1/2, 3/4 and 1, with
  index lookups for exactly these fractions.
\<close>

definition scenario_chart :: StatisticalChart where
  "scenario_chart =
     \<lparr>xPercentage = [0, 1/4, 1/2, 3/4, 1],
      lines = [\<lparr>segmentTree = [10, 20, 5, 40, 15]\<rparr>],
      findStartIndex =
        (\<lambda>v. if v \<le> 0 then 0 else if v \<le> 1/4 then 1 else if v \<le> 1/2 then 2
              else if v \<le> 3/4 then 3 else 4),
      findEndIndex =
        (\<lambda>s v. if 1 \<le> v then 4 else if 3/4 \<le> v then 3 else if 1/2 \<le> v then 2
                else if 1/4 \<le> v then 1 else 0)\<rparr>"

text \<open>A chart with a single sample, at the fraction 0.\<close>

definition single_chart :: StatisticalChart where
  "single_chart =
     \<lparr>xPercentage = [0],
      lines = [\<lparr>segmentTree = [5]\<rparr>],
      findStartIndex = (\<lambda>v. 0),
      findEndIndex = (\<lambda>s v. 0)\<rparr>"

text \<open>A group constructor for the examples: two gridlines, at the minimum and the maximum.\<close>

definition two_lines :: group_ctor where
  "two_lines newMaxHeight newMinHeight useMinHeight =
     \<lparr>lines_h = [\<lparr>absoluteValue = newMinHeight, relativeValue = 1, caption = []\<rparr>,
                 \<lparr>absoluteValue = newMaxHeight, relativeValue = 0, caption = []\<rparr>],
      alpha = 0, fixedAlpha = 1\<rparr>"

text \<open>A controller in flight whose rendered Y range is \<open>[0, h]\<close>.\<close>

definition in_flight :: "real \<Rightarrow> ChartAnimationController" where
  "in_flight h =
     (start 0 ChartAnimationController_new)\<lparr>animValueYMax := anim_value2 h h\<rparr>"

definition ChartWidget_new :: ChartWidget where
  "ChartWidget_new =
     \<lparr>chartData = \<lparr>xPercentage = [], lines = [], findStartIndex = (\<lambda>v. 0),
                    findEndIndex = (\<lambda>s v. 0)\<rparr>,
      animationController = ChartAnimationController_new,
      horizontalLines = [],
      lastHeightLimitsChanged = 0\<rparr>"

definition footer_100 :: Footer where
  "footer_100 =
     \<lparr>left = \<lparr>b_x = 0, b_y = 0, b_width = 10\<rparr>,
      right = \<lparr>b_x = 90, b_y = 0, b_width = 10\<rparr>,
      width = 100,
      start_s = \<lparr>s_x = 0, s_leftLimit = 0, s_rightLimit = 0, s_diffX = 0\<rparr>\<rparr>"

text \<open>
  A controller in the middle of a crossfade that began at time 100, and a list of two
  groups: an older one at half opacity and the newest one.
\<close>

definition crossfading :: ChartAnimationController where
  "crossfading =
     ChartAnimationController_new
       \<lparr>animation := \<lparr>animating = True, started = 0\<rparr>,
        yAnimationStartedAt := 100,
        alphaAnimationStartedAt := 100,
        animValueYAlpha := anim_value2 0 1\<rparr>"

definition two_groups :: "ChartHorizontalLinesData list" where
  "two_groups =
     [(two_lines 10 0 True)\<lparr>alpha := 1/2, fixedAlpha := 1/2\<rparr>, two_lines 40 5 True]"

text \<open>
  The invariant of a drag of the left handle without the modifier key: the limits
  recorded at the press are those of the current geometry.
\<close>

definition left_drag_inv :: "Footer \<Rightarrow> bool" where
  "left_drag_inv f =
     (s_leftLimit (start_s f) = 0
      \<and> s_rightLimit (start_s f) = b_x (right f) - b_width (left f))"

text \<open>A widget that shows the five-sample chart and last spawned a group at time \<open>t\<close>.\<close>

definition loaded_widget :: "int \<Rightarrow> ChartWidget" where
  "loaded_widget t = ChartWidget_new\<lparr>chartData := scenario_chart, lastHeightLimitsChanged := t\<rparr>"

text \<open>
  A chart of one line with two samples, at the fractions 0 and 1, and the widget that
  shows it after \<^verbatim>\<open>setChartData\<close> on a new widget.
\<close>

definition other_chart :: StatisticalChart where
  "other_chart =
     \<lparr>xPercentage = [0, 1],
      lines = [\<lparr>segmentTree = [1, 100]\<rparr>],
      findStartIndex = (\<lambda>v. if v \<le> 0 then 0 else 1),
      findEndIndex = (\<lambda>s v. if 1 \<le> v then 1 else 0)\<rparr>"

definition shown_widget :: ChartWidget where
  "shown_widget =
     \<lparr>chartData = other_chart,
      animationController =
        finish (setXPercentageLimits other_chart \<lparr>min_v = 0, max_v = 1\<rparr> 0 0
          ChartAnimationController_new),
      horizontalLines = [(two_lines 100 1 True)\<lparr>alpha := 1\<rparr>],
      lastHeightLimitsChanged = 0\<rparr>"

section \<open>Properties of the controller\<close>

subsection \<open>Auxiliary facts\<close>

lemmas ctl_defs = setXPercentageLimits_def chooseHeightSpeed_def retargetY_def retargetX_def
  start_def anim_start_def anim_value2_def anim_finish_def finish_def

lemma xtargets_after:
  "a_to (animValueXMin (setXPercentageLimits d l now clk c)) = min_v l
   \<and> a_to (animValueXMax (setXPercentageLimits d l now clk c)) = max_v l"
  by (simp add: ctl_defs Let_def)

lemma heightRatio_choose: "heightRatio (chooseHeightSpeed c) = heightRatio c"
  by (simp add: heightRatio_def chooseHeightSpeed_def Let_def)

lemma heightRatio_le1: "\<not> q_gt (heightRatio c) 1"
  apply (simp add: heightRatio_def Let_def fdiv_def)
  apply (auto simp: field_simps)
  done

lemma speed_after:
  assumes "\<not> (a_to (animValueXMin c) = min_v l \<and> a_to (animValueXMax c) = max_v l)"
  shows "dtYSpeed (setXPercentageLimits d l now clk c) =
     (if q_gt (heightRatio (setXPercentageLimits d l now clk c)) (7/10)
         \<or> q_lt (heightRatio (setXPercentageLimits d l now clk c)) (1/10)
      then 3/200 else 9/400)"
proof -
  let ?p = "retargetY d (retargetX l now (start clk c))"
  have e: "setXPercentageLimits d l now clk c = chooseHeightSpeed ?p"
    using assms by (auto simp add: setXPercentageLimits_def)
  show ?thesis
    unfolding e heightRatio_choose
    by (simp add: chooseHeightSpeed_def Let_def kDtHeightSpeed1_def kDtHeightSpeed2_def
        kDtHeightSpeed3_def kDtHeightSpeedThreshold1_def kDtHeightSpeedThreshold2_def)
qed

lemma fold_max_Max: "fold max xs (a::int) = Max (insert a (set xs))"
  using Max.set_eq_fold[of a xs] by simp

lemma fold_min_Min: "fold min xs (a::int) = Min (insert a (set xs))"
  using Min.set_eq_fold[of a xs] by simp

lemma segment_nonempty:
  "0 \<le> s \<Longrightarrow> s \<le> e \<Longrightarrow> e < int (length ys) \<Longrightarrow> segment ys s e \<noteq> []"
  by (simp add: segment_def)

lemma segment_subset: "set (segment ys s e) \<subseteq> set ys"
  unfolding segment_def by (meson set_take_subset set_drop_subset subset_trans)

lemma rMaxQ_Max:
  assumes "segment ys s e \<noteq> []" and "\<forall>v \<in> set ys. INT_MIN \<le> v"
  shows "rMaxQ ys s e = Max (set (segment ys s e))"
proof -
  let ?A = "set (segment ys s e)"
  have ne: "?A \<noteq> {}" using assms(1) by simp
  have "Max ?A \<in> ?A" using ne by (intro Max_in) simp_all
  then have "INT_MIN \<le> Max ?A"
    using assms(2) segment_subset by blast
  then show ?thesis
    using ne by (simp add: rMaxQ_def fold_max_Max)
qed

lemma rMinQ_Min:
  assumes "segment ys s e \<noteq> []" and "\<forall>v \<in> set ys. v \<le> INT_MAX"
  shows "rMinQ ys s e = Min (set (segment ys s e))"
proof -
  let ?A = "set (segment ys s e)"
  have ne: "?A \<noteq> {}" using assms(1) by simp
  have "Min ?A \<in> ?A" using ne by (intro Min_in) simp_all
  then have "Min ?A \<le> INT_MAX"
    using assms(2) segment_subset by blast
  then show ?thesis
    using ne by (simp add: rMinQ_def fold_min_Min)
qed

lemma FindMaxValue_Max:
  "FindMaxValue d s e = Max (insert 0 ((\<lambda>l. rMaxQ (segmentTree l) s e) ` set (lines d)))"
proof -
  have "fold (\<lambda>l m. max (rMaxQ (segmentTree l) s e) m) ls a
      = fold max (map (\<lambda>l. rMaxQ (segmentTree l) s e) ls) a" for ls a
    by (simp add: fold_map comp_def)
  then show ?thesis
    by (simp add: FindMaxValue_def fold_max_Max)
qed

lemma FindMinValue_Min:
  "FindMinValue d s e = Min (insert INT_MAX ((\<lambda>l. rMinQ (segmentTree l) s e) ` set (lines d)))"
proof -
  have "fold (\<lambda>l m. min (rMinQ (segmentTree l) s e) m) ls a
      = fold min (map (\<lambda>l. rMinQ (segmentTree l) s e) ls) a" for ls a
    by (simp add: fold_map comp_def)
  then show ?thesis
    by (simp add: FindMinValue_def fold_min_Min)
qed

lemma rangeValues_finite: "finite (rangeValues d s e)"
  by (simp add: rangeValues_def)

lemma rangeValues_nonempty:
  "lines d \<noteq> [] \<Longrightarrow> validRange d s e \<Longrightarrow> rangeValues d s e \<noteq> {}"
proof -
  assume a: "lines d \<noteq> []" "validRange d s e"
  then obtain l where l: "l \<in> set (lines d)" by (cases "lines d") auto
  then have "segment (segmentTree l) s e \<noteq> []"
    using a(2) by (simp add: validRange_def segment_nonempty)
  then have "set (segment (segmentTree l) s e) \<noteq> {}" by simp
  then show ?thesis using l by (auto simp: rangeValues_def)
qed

lemma lineMax_image:
  assumes "validRange d s e" "int32Values d"
  shows "(\<lambda>l. rMaxQ (segmentTree l) s e) ` set (lines d)
       = (\<lambda>l. Max (set (segment (segmentTree l) s e))) ` set (lines d)"
  using assms
  by (intro image_cong refl rMaxQ_Max) (auto simp: validRange_def int32Values_def segment_nonempty)

lemma lineMin_image:
  assumes "validRange d s e" "int32Values d"
  shows "(\<lambda>l. rMinQ (segmentTree l) s e) ` set (lines d)
       = (\<lambda>l. Min (set (segment (segmentTree l) s e))) ` set (lines d)"
  using assms
  by (intro image_cong refl rMinQ_Min) (auto simp: validRange_def int32Values_def segment_nonempty)

lemma Max_of_line_maxima:
  assumes "lines d \<noteq> []" "validRange d s e"
  shows "Max ((\<lambda>l. Max (set (segment (segmentTree l) s e))) ` set (lines d))
       = Max (rangeValues d s e)"
proof (rule Max_eqI)
  let ?M = "Max (rangeValues d s e)"
  have ne: "\<And>l. l \<in> set (lines d) \<Longrightarrow> set (segment (segmentTree l) s e) \<noteq> {}"
    using assms(2) by (simp add: validRange_def segment_nonempty)
  have le: "Max (set (segment (segmentTree l) s e)) \<le> ?M" if "l \<in> set (lines d)" for l
  proof -
    have "Max (set (segment (segmentTree l) s e)) \<in> set (segment (segmentTree l) s e)"
      using ne[OF that] by (intro Max_in) simp_all
    then have "Max (set (segment (segmentTree l) s e)) \<in> rangeValues d s e"
      using that by (auto simp: rangeValues_def)
    then show ?thesis using rangeValues_finite by (intro Max_ge)
  qed
  show "finite ((\<lambda>l. Max (set (segment (segmentTree l) s e))) ` set (lines d))" by simp
  show "\<And>y. y \<in> (\<lambda>l. Max (set (segment (segmentTree l) s e))) ` set (lines d) \<Longrightarrow> y \<le> ?M"
    using le by auto
  have "?M \<in> rangeValues d s e"
    using rangeValues_nonempty[OF assms] rangeValues_finite by (intro Max_in)
  then obtain l where l: "l \<in> set (lines d)" "?M \<in> set (segment (segmentTree l) s e)"
    by (auto simp: rangeValues_def)
  then have "?M \<le> Max (set (segment (segmentTree l) s e))" by (intro Max_ge) simp_all
  then have "?M = Max (set (segment (segmentTree l) s e))" using le[OF l(1)] by simp
  then show "?M \<in> (\<lambda>l. Max (set (segment (segmentTree l) s e))) ` set (lines d)"
    using l(1) by blast
qed

lemma Min_of_line_minima:
  assumes "lines d \<noteq> []" "validRange d s e"
  shows "Min ((\<lambda>l. Min (set (segment (segmentTree l) s e))) ` set (lines d))
       = Min (rangeValues d s e)"
proof (rule Min_eqI)
  let ?M = "Min (rangeValues d s e)"
  have ne: "\<And>l. l \<in> set (lines d) \<Longrightarrow> set (segment (segmentTree l) s e) \<noteq> {}"
    using assms(2) by (simp add: validRange_def segment_nonempty)
  have le: "?M \<le> Min (set (segment (segmentTree l) s e))" if "l \<in> set (lines d)" for l
  proof -
    have "Min (set (segment (segmentTree l) s e)) \<in> set (segment (segmentTree l) s e)"
      using ne[OF that] by (intro Min_in) simp_all
    then have "Min (set (segment (segmentTree l) s e)) \<in> rangeValues d s e"
      using that by (auto simp: rangeValues_def)
    then show ?thesis using rangeValues_finite by (intro Min_le)
  qed
  show "finite ((\<lambda>l. Min (set (segment (segmentTree l) s e))) ` set (lines d))" by simp
  show "\<And>y. y \<in> (\<lambda>l. Min (set (segment (segmentTree l) s e))) ` set (lines d) \<Longrightarrow> ?M \<le> y"
    using le by auto
  have "?M \<in> rangeValues d s e"
    using rangeValues_nonempty[OF assms] rangeValues_finite by (intro Min_in)
  then obtain l where l: "l \<in> set (lines d)" "?M \<in> set (segment (segmentTree l) s e)"
    by (auto simp: rangeValues_def)
  then have "Min (set (segment (segmentTree l) s e)) \<le> ?M" by (intro Min_le) simp_all
  then have "?M = Min (set (segment (segmentTree l) s e))" using le[OF l(1)] by simp
  then show "?M \<in> (\<lambda>l. Min (set (segment (segmentTree l) s e))) ` set (lines d)"
    using l(1) by blast
qed

lemma FindMaxValue_true:
  assumes "lines d \<noteq> []" "validRange d s e" "int32Values d"
  shows "FindMaxValue d s e = max 0 (Max (rangeValues d s e))"
  using assms(1)
  by (simp add: FindMaxValue_Max lineMax_image[OF assms(2,3)]
      Max_of_line_maxima[OF assms(1,2), symmetric])

lemma rangeValues_le_INT_MAX:
  assumes "int32Values d" "v \<in> rangeValues d s e"
  shows "v \<le> INT_MAX"
  using assms segment_subset by (fastforce simp: rangeValues_def int32Values_def)

lemma FindMinValue_true:
  assumes "lines d \<noteq> []" "validRange d s e" "int32Values d"
  shows "FindMinValue d s e = Min (rangeValues d s e)"
proof -
  have ne: "rangeValues d s e \<noteq> {}" by (rule rangeValues_nonempty[OF assms(1,2)])
  have "Min (rangeValues d s e) \<in> rangeValues d s e"
    using ne rangeValues_finite by (intro Min_in)
  then have "Min (rangeValues d s e) \<le> INT_MAX"
    using rangeValues_le_INT_MAX[OF assms(3)] by blast
  then show ?thesis
    using assms(1)
    by (simp add: FindMinValue_Min lineMin_image[OF assms(2,3)]
        Min_of_line_minima[OF assms(1,2)])
qed

lemma scenario_values_13: "rangeValues scenario_chart 1 3 = {20, 5, 40}"
  by (auto simp: rangeValues_def scenario_chart_def segment_def)

lemma single_values: "rangeValues single_chart 0 0 = {5}"
  by (auto simp: rangeValues_def single_chart_def segment_def)

lemma FindMaxValue_floor:
  "FindMaxValue \<lparr>xPercentage = [0], lines = [\<lparr>segmentTree = [-3]\<rparr>],
      findStartIndex = (\<lambda>v. 0), findEndIndex = (\<lambda>s v. 0)\<rparr> 0 0 = 0"
  by (simp add: FindMaxValue_def rMaxQ_def segment_def INT_MIN_def)

lemma scenario_full_min: "FindMinValue scenario_chart 0 4 = 5"
  by (simp add: FindMinValue_def rMinQ_def segment_def scenario_chart_def INT_MAX_def)

lemma scenario_full_max: "FindMaxValue scenario_chart 0 4 = 40"
  by (simp add: FindMaxValue_def rMaxQ_def segment_def scenario_chart_def INT_MIN_def)

lemma scenario_full_idx:
  "findStartIndex scenario_chart 0 = 0" "findEndIndex scenario_chart 0 1 = 4"
  by (simp_all add: scenario_chart_def)

lemma in_flight_full:
  "setXPercentageLimits scenario_chart \<lparr>min_v = 0, max_v = 1\<rparr> now clk (in_flight h)
   = chooseHeightSpeed (retargetY scenario_chart
        (retargetX \<lparr>min_v = 0, max_v = 1\<rparr> now (start clk (in_flight h))))"
  by (simp add: setXPercentageLimits_def in_flight_def start_def ChartAnimationController_new_def
      anim_default_def)

lemma in_flight_ratio:
  "heightRatio (setXPercentageLimits scenario_chart \<lparr>min_v = 0, max_v = 1\<rparr> now clk (in_flight h))
   = (if h / 35 > 1 then fdiv 1 (h / 35) else Finite (h / 35))"
  unfolding in_flight_full heightRatio_choose
  by (simp add: heightRatio_def retargetY_def retargetX_def start_def in_flight_def
      ChartAnimationController_new_def anim_default_def anim_start_def anim_value2_def Let_def
      scenario_full_idx scenario_full_min scenario_full_max fdiv_def)

lemma in_flight_targets:
  "\<not> (a_to (animValueXMin (in_flight h)) = min_v \<lparr>min_v = 0, max_v = 1\<rparr>
      \<and> a_to (animValueXMax (in_flight h)) = max_v \<lparr>min_v = 0, max_v = (1::real)\<rparr>)"
  by (simp add: in_flight_def start_def ChartAnimationController_new_def anim_default_def)

lemma in_flight_animating: "animating (animation (in_flight h))"
  by (simp add: in_flight_def start_def ChartAnimationController_new_def)

subsection \<open>Setting the X limits and finishing\<close>

text \<open>
  Claim C1, as amended. For a chart with at least one line whose values are 32-bit
  integers and a fraction pair that differs from the current X targets and whose index
  range lies inside every line: \<^verbatim>\<open>setXPercentageLimits\<close> followed by \<^verbatim>\<open>finish\<close> leaves the
  current X limits equal to the pair, the current Y minimum equal to the true minimum
  over all lines in the index range, and the current Y maximum equal to the true maximum
  over that range whenever that maximum is not negative.
\<close>

theorem finish_after_setXPercentageLimits:
  assumes "lines d \<noteq> []"
    and "validRange d (findStartIndex d (min_v l))
           (findEndIndex d (findStartIndex d (min_v l)) (max_v l))"
    and "int32Values d"
    and "\<not> (a_to (animValueXMin c) = min_v l \<and> a_to (animValueXMax c) = max_v l)"
  shows "currentXLimits (finish (setXPercentageLimits d l now clk c)) = l
    \<and> min_v (currentHeightLimits (finish (setXPercentageLimits d l now clk c))) =
        real_of_int (Min (rangeValues d (findStartIndex d (min_v l))
                    (findEndIndex d (findStartIndex d (min_v l)) (max_v l))))
    \<and> (0 \<le> Max (rangeValues d (findStartIndex d (min_v l))
                    (findEndIndex d (findStartIndex d (min_v l)) (max_v l)))
       \<longrightarrow> max_v (currentHeightLimits (finish (setXPercentageLimits d l now clk c))) =
             real_of_int (Max (rangeValues d (findStartIndex d (min_v l))
                    (findEndIndex d (findStartIndex d (min_v l)) (max_v l)))))"
proof -
  let ?s = "findStartIndex d (min_v l)"
  let ?e = "findEndIndex d ?s (max_v l)"
  let ?c = "setXPercentageLimits d l now clk c"
  have x: "a_to (animValueXMin ?c) = min_v l" "a_to (animValueXMax ?c) = max_v l"
    using xtargets_after[of d l now clk c] by simp_all
  have y: "a_to (animValueYMin ?c) = real_of_int (FindMinValue d ?s ?e)"
          "a_to (animValueYMax ?c) = real_of_int (FindMaxValue d ?s ?e)"
    using assms(4) by (auto simp: ctl_defs Let_def)
  have mx: "FindMaxValue d ?s ?e = max 0 (Max (rangeValues d ?s ?e))"
    by (rule FindMaxValue_true[OF assms(1,2,3)])
  have mn: "FindMinValue d ?s ?e = Min (rangeValues d ?s ?e)"
    by (rule FindMinValue_true[OF assms(1,2,3)])
  show ?thesis
    using x y by (simp add: currentXLimits_def currentHeightLimits_def finish_def
        anim_finish_def mx mn)
qed

theorem finish_after_setXPercentageLimits_witness:
  "currentXLimits (finish (setXPercentageLimits scenario_chart \<lparr>min_v = 1/4, max_v = 3/4\<rparr>
       0 0 ChartAnimationController_new)) = \<lparr>min_v = 1/4, max_v = 3/4\<rparr>
   \<and> currentHeightLimits (finish (setXPercentageLimits scenario_chart
       \<lparr>min_v = 1/4, max_v = 3/4\<rparr> 0 0 ChartAnimationController_new)) = \<lparr>min_v = 5, max_v = 40\<rparr>"
proof -
  have s: "findStartIndex scenario_chart (1/4) = 1" by (simp add: scenario_chart_def)
  have e: "findEndIndex scenario_chart 1 (3/4) = 3" by (simp add: scenario_chart_def)
  have 1: "lines scenario_chart \<noteq> []" by (simp add: scenario_chart_def)
  have 2: "validRange scenario_chart 1 3" by (simp add: validRange_def scenario_chart_def)
  have 3: "int32Values scenario_chart"
    by (simp add: int32Values_def scenario_chart_def INT_MIN_def INT_MAX_def)
  have 4: "\<not> (a_to (animValueXMin ChartAnimationController_new) = 1/4
             \<and> a_to (animValueXMax ChartAnimationController_new) = 3/4)"
    by (simp add: ChartAnimationController_new_def anim_default_def)
  have 5: "0 \<le> Max (rangeValues scenario_chart 1 3)" by (simp add: scenario_values_13)
  show ?thesis
    using finish_after_setXPercentageLimits[of scenario_chart "\<lparr>min_v = 1/4, max_v = 3/4\<rparr>" ChartAnimationController_new 0 0]
      1 2 3 4 5
    by (simp add: s e scenario_values_13)
qed

text \<open>
  The claim as first stated fails when the pair equals the current X targets: the call
  returns at once and the Y limits are not recomputed. A fresh controller has the targets
  \<open>(0, 0)\<close>; for the chart with a single sample at fraction 0 the Y limits stay \<open>(0, 0)\<close>
  although the only value is 5.
\<close>

theorem finish_after_noop_keeps_stale_limits:
  "lines single_chart \<noteq> [] \<and> (0::real) \<le> 0
   \<and> findStartIndex single_chart 0 = 0 \<and> findEndIndex single_chart 0 0 = 0
   \<and> validRange single_chart 0 0
   \<and> Min (rangeValues single_chart 0 0) = 5 \<and> Max (rangeValues single_chart 0 0) = 5
   \<and> currentHeightLimits (finish (setXPercentageLimits single_chart \<lparr>min_v = 0, max_v = 0\<rparr>
         0 0 ChartAnimationController_new)) = \<lparr>min_v = 0, max_v = 0\<rparr>
   \<and> currentHeightLimits (finish (setXPercentageLimits single_chart \<lparr>min_v = 0, max_v = 0\<rparr>
         0 0 ChartAnimationController_new))
       \<noteq> \<lparr>min_v = real_of_int (Min (rangeValues single_chart 0 0)),
           max_v = real_of_int (Max (rangeValues single_chart 0 0))\<rparr>"
  by (simp add: single_values)
    (simp add: single_chart_def validRange_def setXPercentageLimits_def
      ChartAnimationController_new_def anim_default_def finish_def anim_finish_def
      currentHeightLimits_def)

subsection \<open>The easing speed\<close>

text \<open>
  Claim C4, as amended. After a call of \<^verbatim>\<open>setXPercentageLimits\<close> that changes the X
  targets, the ratio \<open>k\<close> is not greater than 1, the Y easing speed is 0.015 when \<open>k > 0.7\<close>
  and also 0.015 when \<open>k < 0.1\<close>, and 0.0225 otherwise; the slow speed is smaller than the
  middle one.
\<close>

theorem height_speed_choice:
  assumes "\<not> (a_to (animValueXMin c) = min_v l \<and> a_to (animValueXMax c) = max_v l)"
  shows "\<not> q_gt (heightRatio (setXPercentageLimits d l now clk c)) 1
     \<and> dtYSpeed (setXPercentageLimits d l now clk c) =
         (if q_gt (heightRatio (setXPercentageLimits d l now clk c)) (7/10)
             \<or> q_lt (heightRatio (setXPercentageLimits d l now clk c)) (1/10)
          then 3/200 else 9/400)
     \<and> (3/200 :: real) < 9/400"
  using speed_after[OF assms] heightRatio_le1 by simp

theorem height_speed_choice_witness:
  "dtYSpeed (setXPercentageLimits scenario_chart \<lparr>min_v = 0, max_v = 1\<rparr> 0 0 (in_flight 28))
     = 3/200
   \<and> dtYSpeed (setXPercentageLimits scenario_chart \<lparr>min_v = 0, max_v = 1\<rparr> 0 0 (in_flight 14))
     = 9/400"
  using height_speed_choice[of "in_flight 28" "\<lparr>min_v = 0, max_v = 1\<rparr>" scenario_chart 0 0]
    height_speed_choice[of "in_flight 14" "\<lparr>min_v = 0, max_v = 1\<rparr>" scenario_chart 0 0]
    in_flight_targets
  by (simp add: in_flight_ratio)

text \<open>
  The two slow speeds are not distinct: with a rendered span of 28 against a target span
  of 35 the ratio is 4/5, with a rendered span of 7/4 it is 1/20, and the speed chosen is
  the same.
\<close>

theorem height_speeds_coincide:
  "q_gt (heightRatio (setXPercentageLimits scenario_chart \<lparr>min_v = 0, max_v = 1\<rparr> 0 0
            (in_flight 28))) (7/10)
   \<and> q_lt (heightRatio (setXPercentageLimits scenario_chart \<lparr>min_v = 0, max_v = 1\<rparr> 0 0
            (in_flight (7/4)))) (1/10)
   \<and> dtYSpeed (setXPercentageLimits scenario_chart \<lparr>min_v = 0, max_v = 1\<rparr> 0 0 (in_flight 28))
     = dtYSpeed (setXPercentageLimits scenario_chart \<lparr>min_v = 0, max_v = 1\<rparr> 0 0
            (in_flight (7/4)))"
proof -
  have a: "heightRatio (setXPercentageLimits scenario_chart \<lparr>min_v = 0, max_v = 1\<rparr> 0 0
            (in_flight 28)) = Finite (4/5)"
    by (simp add: in_flight_ratio)
  have b: "heightRatio (setXPercentageLimits scenario_chart \<lparr>min_v = 0, max_v = 1\<rparr> 0 0
            (in_flight (7/4))) = Finite (1/20)"
    by (simp add: in_flight_ratio)
  show ?thesis
    by (simp add: speed_after[OF in_flight_targets] a b)
qed

subsection \<open>Re-targeting in flight\<close>

text \<open>
  Claim C5. A call of \<^verbatim>\<open>setXPercentageLimits\<close> with a pair that differs from the current X
  targets, made while the animation runs, leaves the current X and Y values as they were;
  the four values animate from their current value, the X targets are the new pair and
  the Y targets are the new final height limits; the animation is not restarted.
\<close>

theorem setXPercentageLimits_no_jump:
  assumes "animating (animation c)"
    and "\<not> (a_to (animValueXMin c) = min_v l \<and> a_to (animValueXMax c) = max_v l)"
  shows "currentXLimits (setXPercentageLimits d l now clk c) = currentXLimits c
    \<and> currentHeightLimits (setXPercentageLimits d l now clk c) = currentHeightLimits c
    \<and> a_from (animValueYMin (setXPercentageLimits d l now clk c)) = a_cur (animValueYMin c)
    \<and> a_from (animValueYMax (setXPercentageLimits d l now clk c)) = a_cur (animValueYMax c)
    \<and> a_from (animValueXMin (setXPercentageLimits d l now clk c)) = a_cur (animValueXMin c)
    \<and> a_from (animValueXMax (setXPercentageLimits d l now clk c)) = a_cur (animValueXMax c)
    \<and> a_to (animValueXMin (setXPercentageLimits d l now clk c)) = min_v l
    \<and> a_to (animValueXMax (setXPercentageLimits d l now clk c)) = max_v l
    \<and> a_to (animValueYMin (setXPercentageLimits d l now clk c)) = min_v (finalHeightLimits (setXPercentageLimits d l now clk c))
    \<and> a_to (animValueYMax (setXPercentageLimits d l now clk c)) = max_v (finalHeightLimits (setXPercentageLimits d l now clk c))
    \<and> animValueYAlpha (setXPercentageLimits d l now clk c) = animValueYAlpha c
    \<and> animation (setXPercentageLimits d l now clk c) = animation c"
  using assms
  by (auto simp add: ctl_defs Let_def currentXLimits_def currentHeightLimits_def)

theorem setXPercentageLimits_no_jump_witness:
  "currentHeightLimits (setXPercentageLimits scenario_chart \<lparr>min_v = 0, max_v = 1\<rparr> 0 0
      (in_flight 28)) = \<lparr>min_v = 0, max_v = 28\<rparr>
   \<and> a_to (animValueYMax (setXPercentageLimits scenario_chart \<lparr>min_v = 0, max_v = 1\<rparr> 0 0
      (in_flight 28))) = 40"
proof -
  have f: "max_v (finalHeightLimits (setXPercentageLimits scenario_chart
      \<lparr>min_v = 0, max_v = 1\<rparr> 0 0 (in_flight 28))) = 40"
    unfolding in_flight_full
    by (simp add: chooseHeightSpeed_def retargetY_def retargetX_def Let_def anim_start_def
        scenario_full_idx scenario_full_min scenario_full_max)
  show ?thesis
    using setXPercentageLimits_no_jump[of "in_flight 28" "\<lparr>min_v = 0, max_v = 1\<rparr>"
        scenario_chart 0 0] in_flight_animating in_flight_targets
    by (simp add: f) (simp add: currentHeightLimits_def in_flight_def start_def
        ChartAnimationController_new_def anim_default_def anim_value2_def)
qed

subsection \<open>Idempotence\<close>

text \<open>
  Claim C6. A call of \<^verbatim>\<open>setXPercentageLimits\<close> with a pair equal to the current X targets
  returns the controller unchanged: animation, timestamps, targets and speed are as they
  were. In particular a second call with the pair of the first call changes nothing,
  whatever the time, the clock and the chart of the second call.
\<close>

theorem setXPercentageLimits_idempotent:
  "(a_to (animValueXMin c) = min_v l \<and> a_to (animValueXMax c) = max_v l
      \<longrightarrow> setXPercentageLimits d l now clk c = c)
   \<and> setXPercentageLimits d' l now' clk' (setXPercentageLimits d l now clk c)
     = setXPercentageLimits d l now clk c"
proof
  show "a_to (animValueXMin c) = min_v l \<and> a_to (animValueXMax c) = max_v l
      \<longrightarrow> setXPercentageLimits d l now clk c = c"
    by (simp add: setXPercentageLimits_def)
  show "setXPercentageLimits d' l now' clk' (setXPercentageLimits d l now clk c)
     = setXPercentageLimits d l now clk c"
    using xtargets_after[of d l now clk c]
    by (subst setXPercentageLimits_def) simp
qed

theorem setXPercentageLimits_idempotent_witness:
  "setXPercentageLimits scenario_chart \<lparr>min_v = 0, max_v = 0\<rparr> 5 5 ChartAnimationController_new
   = ChartAnimationController_new"
  using setXPercentageLimits_idempotent[of ChartAnimationController_new
      "\<lparr>min_v = 0, max_v = 0\<rparr>" scenario_chart 5 5]
  by (simp add: ChartAnimationController_new_def anim_default_def)

section \<open>Properties of the footer\<close>

lemma left_press:
  "handleDrag LeftHandle ctrl (MouseButtonPress p0) f = Inr (f1, fired)
   \<Longrightarrow> left_drag_inv f1 \<and> right f1 = right f \<and> b_width (left f1) = b_width (left f)"
  by (auto simp: handleDrag_def left_drag_inv_def leftLimit_def rightLimit_def)

lemma left_move:
  assumes "handleDrag LeftHandle False (MouseMove p) f = Inr (f1, fired)" "left_drag_inv f"
  shows "left_drag_inv f1 \<and> right f1 = right f \<and> b_width (left f1) = b_width (left f)
     \<and> 0 \<le> b_x (left f1) \<and> rect_right (left f1) \<le> b_x (right f1)"
  using assms
  by (auto simp: handleDrag_def left_drag_inv_def std_clamp_def side_of_def side_move_def
      rect_right_def Let_def split: if_splits sum.splits)

lemma left_moves:
  "handleDrags LeftHandle (map (\<lambda>p. (False, MouseMove p)) ps) f = Inr f1 \<Longrightarrow> left_drag_inv f
   \<Longrightarrow> left_drag_inv f1 \<and> right f1 = right f \<and> b_width (left f1) = b_width (left f)"
proof (induction ps arbitrary: f)
  case Nil
  then show ?case by simp
next
  case (Cons p ps)
  from Cons.prems(1) obtain f' fired where
    m: "handleDrag LeftHandle False (MouseMove p) f = Inr (f', fired)"
    and r: "handleDrags LeftHandle (map (\<lambda>p. (False, MouseMove p)) ps) f' = Inr f1"
    by (auto split: sum.splits)
  from left_move[OF m Cons.prems(2)] Cons.IH[OF r] show ?case by simp
qed

lemma ctrl_move_same_delta:
  "handleDrag side True (MouseMove p) f = Inr (f1, fired)
   \<Longrightarrow> b_x (left f1) - b_x (left f) = p - s_x (start_s f)
     \<and> b_x (right f1) - b_x (right f) = p - s_x (start_s f)
     \<and> b_width (left f1) = b_width (left f) \<and> b_width (right f1) = b_width (right f)"
  by (auto simp: handleDrag_def Let_def)

text \<open>
  Claim C8. In a drag of the left handle without the modifier key (a press followed by
  any number of moves), started with the right handle at or beyond the width of the left
  one, a move whose pointer position would take the left handle past the left edge of the
  right handle puts it exactly at the right handle's position minus the left handle's
  width: the right edge of the left handle meets the left edge of the right handle, which
  has not moved.
\<close>

theorem left_handle_clamped:
  assumes "handleDrags LeftHandle
             ((False, MouseButtonPress p0) # map (\<lambda>p. (False, MouseMove p)) ps) f0 = Inr f1"
    and "b_width (left f0) \<le> b_x (right f0)"
    and "b_x (right f1) - b_width (left f1) < b_x (left f1) + (p - s_x (start_s f1))"
  shows "\<exists>f2 fired. handleDrag LeftHandle False (MouseMove p) f1 = Inr (f2, fired)
     \<and> b_x (left f2) = b_x (right f2) - b_width (left f2)
     \<and> rect_right (left f2) = b_x (right f2)
     \<and> right f2 = right f0 \<and> b_width (left f2) = b_width (left f0)"
proof -
  from assms(1) obtain fp fired where
    p: "handleDrag LeftHandle False (MouseButtonPress p0) f0 = Inr (fp, fired)"
    and r: "handleDrags LeftHandle (map (\<lambda>p. (False, MouseMove p)) ps) fp = Inr f1"
    by (auto split: sum.splits)
  from left_press[OF p] left_moves[OF r]
  have inv: "left_drag_inv f1" "right f1 = right f0" "b_width (left f1) = b_width (left f0)"
    by simp_all
  show ?thesis
    using inv assms(2,3)
    by (auto simp: handleDrag_def left_drag_inv_def std_clamp_def side_of_def side_move_def
      rect_right_def Let_def)
qed

theorem left_handle_clamped_witness:
  "\<exists>f2 fired. handleDrag LeftHandle False (MouseMove 200)
       (footer_100\<lparr>start_s := \<lparr>s_x = 5, s_leftLimit = 0, s_rightLimit = 80, s_diffX = 0\<rparr>\<rparr>)
         = Inr (f2, fired)
     \<and> b_x (left f2) = 80 \<and> b_x (right f2) = 90"
proof -
  have 1: "handleDrags LeftHandle
             ((False, MouseButtonPress 5) # map (\<lambda>p. (False, MouseMove p)) []) footer_100
           = Inr (footer_100\<lparr>start_s := \<lparr>s_x = 5, s_leftLimit = 0, s_rightLimit = 80, s_diffX = 0\<rparr>\<rparr>)"
    by (simp add: handleDrag_def footer_100_def leftLimit_def rightLimit_def)
  have 2: "b_width (left footer_100) \<le> b_x (right footer_100)" by (simp add: footer_100_def)
  have 3: "b_x (right (footer_100\<lparr>start_s := \<lparr>s_x = 5, s_leftLimit = 0, s_rightLimit = 80, s_diffX = 0\<rparr>\<rparr>))
      - b_width (left (footer_100\<lparr>start_s := \<lparr>s_x = 5, s_leftLimit = 0, s_rightLimit = 80, s_diffX = 0\<rparr>\<rparr>))
     < b_x (left (footer_100\<lparr>start_s := \<lparr>s_x = 5, s_leftLimit = 0, s_rightLimit = 80, s_diffX = 0\<rparr>\<rparr>))
       + (200 - s_x (start_s (footer_100\<lparr>start_s := \<lparr>s_x = 5, s_leftLimit = 0, s_rightLimit = 80, s_diffX = 0\<rparr>\<rparr>)))"
    by (simp add: footer_100_def)
  from left_handle_clamped[OF 1 2 3] show ?thesis
    by (auto simp: footer_100_def)
qed

text \<open>
  Claim C3 at a concrete input. On a track of width 100 with handles of width 10 at 0 and
  90, a press at 5 on the left handle and a move to 0 with the modifier key held shift
  both handles by -5: the distance is kept, the left handle is at -5, outside the track.
\<close>

theorem ctrl_drag_leaves_track:
  "handleDrags LeftHandle [(False, MouseButtonPress 5), (True, MouseMove 0)] footer_100
   = Inr (footer_100\<lparr>left := \<lparr>b_x = - 5, b_y = 0, b_width = 10\<rparr>,
                      right := \<lparr>b_x = 85, b_y = 0, b_width = 10\<rparr>,
                      start_s := \<lparr>s_x = 5, s_leftLimit = 0, s_rightLimit = 80, s_diffX = 0\<rparr>\<rparr>)"
  by (simp add: handleDrag_def footer_100_def leftLimit_def rightLimit_def side_of_def Let_def)

section \<open>Properties of \<^verbatim>\<open>tick\<close>\<close>

lemma retire_zero_prefix:
  "\<forall>h \<in> set xs. alpha h = 0 \<Longrightarrow> retire (xs @ [g]) = [g]"
proof (induction xs)
  case Nil
  then show ?case by simp
next
  case (Cons a xs)
  then show ?case by (cases xs) simp_all
qed

lemma retire_prefix:
  "ls \<noteq> [] \<Longrightarrow>
   \<exists>dropped. ls = dropped @ retire ls \<and> (\<forall>h \<in> set dropped. alpha h = 0)
     \<and> retire ls \<noteq> [] \<and> last (retire ls) = last ls
     \<and> (length (retire ls) = 1 \<or> alpha (hd (retire ls)) \<noteq> 0)"
proof (induction ls rule: retire.induct)
  case (1 g g' rest)
  show ?case
  proof (cases "alpha g = 0")
    case True
    with 1 obtain dropped where
      d: "g' # rest = dropped @ retire (g' # rest)" "\<forall>h \<in> set dropped. alpha h = 0"
         "retire (g' # rest) \<noteq> []" "last (retire (g' # rest)) = last (g' # rest)"
         "length (retire (g' # rest)) = 1 \<or> alpha (hd (retire (g' # rest))) \<noteq> 0"
      by auto
    have "g # g' # rest = (g # dropped) @ retire (g # g' # rest)"
      using True d(1) by simp
    moreover have "\<forall>h \<in> set (g # dropped). alpha h = 0" using True d(2) by simp
    ultimately show ?thesis using True d(3,4,5) by (intro exI[of _ "g # dropped"]) simp
  next
    case False
    then show ?thesis by (intro exI[of _ "[]"]) simp
  qed
qed simp_all

lemma computeRelative_keeps:
  "alpha (computeRelative a b g) = alpha g"
  "fixedAlpha (computeRelative a b g) = fixedAlpha g"
  "map absoluteValue (lines_h (computeRelative a b g)) = map absoluteValue (lines_h g)"
  "map caption (lines_h (computeRelative a b g)) = map caption (lines_h g)"
  "(lines_h (computeRelative a b g) = []) = (lines_h g = [])"
  by (simp_all add: computeRelative_def comp_def)

lemma tick_y_list:
  "tick_y dtA (c, ls) = (c2, ls2) \<Longrightarrow>
     length ls2 = length ls
     \<and> (ls \<noteq> [] \<longrightarrow> fixedAlpha (last ls2) = fixedAlpha (last ls)
          \<and> map absoluteValue (lines_h (last ls2)) = map absoluteValue (lines_h (last ls))
          \<and> map caption (lines_h (last ls2)) = map caption (lines_h (last ls)))"
  by (auto simp: tick_y_def Let_def last_map computeRelative_keeps split: if_splits)

lemma tick_alpha_one:
  assumes "tick_alpha dtA (c, ls) = Inr ls'" "0 \<le> dtA" "dtA \<le> 1" "a_cur (animValueYAlpha c) = 1"
  shows "ls \<noteq> [] \<and> ls' = [(last ls)\<lparr>alpha := 1\<rparr>]"
proof -
  let ?faded = "map (\<lambda>h. h\<lparr>alpha := fixedAlpha h * (1 - 1)\<rparr>) ls"
  have ne: "ls \<noteq> []" using assms by (auto simp: tick_alpha_def Let_def split: if_splits)
  have z: "\<forall>h \<in> set (butlast ?faded). alpha h = 0"
    by (auto dest!: in_set_butlastD)
  have "ls' = retire (butlast ?faded @ [(last ?faded)\<lparr>alpha := 1\<rparr>])"
    using assms ne by (simp add: tick_alpha_def Let_def)
  also have "\<dots> = [(last ?faded)\<lparr>alpha := 1\<rparr>]"
    by (rule retire_zero_prefix[OF z])
  also have "\<dots> = [(last ls)\<lparr>alpha := 1\<rparr>]"
    using ne by (simp add: last_map)
  finally show ?thesis using ne by simp
qed

lemma dtAlpha_le1: "dtAlpha now c \<le> 1"
  by (simp add: dtAlpha_def)

lemmas tick_defs = tick_def tick_begin_def tick_rest_def tick_stop_def tick_x_def tick_y_def
  tick_alpha_def tick_end_def dtX_def dtAlpha_def xFinished_def yFinished_def alphaFinished_def
  isFinished_def kExpandingDelay_def kXExpandingDuration_def kAlphaExpandingDuration_def

lemmas example_defs = crossfading_def two_groups_def two_lines_def ChartAnimationController_new_def
  anim_default_def anim_value2_def anim_update_def anim_finish_def easeInCubic_def linear_def
  computeRelative_def

lemma crossfade_begin:
  "tick_begin 300 id (crossfading, two_groups)
   = (crossfading\<lparr>dtCurrent := \<lparr>min_v = 0, max_v = 0\<rparr>\<rparr>, two_groups)"
  by (simp add: tick_begin_def example_defs Let_def)

lemma crossfade_tick:
  "\<exists>c' ls'. tick 300 id (crossfading, two_groups) = Inr (c', ls')
      \<and> a_cur (animValueYAlpha c') = 1"
  by (simp add: tick_defs example_defs Let_def)

lemma crossfade_begin_empty:
  "tick_begin 300 id (crossfading, [])
   = (crossfading\<lparr>dtCurrent := \<lparr>min_v = 0, max_v = 0\<rparr>\<rparr>, [])"
  by (simp add: tick_begin_def example_defs Let_def)

lemma tick_rest_returns:
  assumes "ls1 \<noteq> []" "lines_h (last ls1) \<noteq> []"
  shows "\<exists>r. tick_rest now (c1, ls1) = Inr r"
proof -
  have "\<exists>cs. tick_stop (c1, ls1) = Inr cs"
    using assms by (simp add: tick_stop_def Let_def)
  then obtain cs where s: "tick_stop (c1, ls1) = Inr cs" ..
  obtain c2 ls2 where
    y: "tick_y (dtAlpha now c1) (tick_x (xFinished c1) (dtX now c1) cs, ls1) = (c2, ls2)"
    by (cases "tick_y (dtAlpha now c1) (tick_x (xFinished c1) (dtX now c1) cs, ls1)")
  from tick_y_list[OF y] assms have "ls2 \<noteq> []" by auto
  then have "\<exists>ls3. tick_alpha (dtAlpha now c1) (c2, ls2) = Inr ls3"
    by (simp add: tick_alpha_def Let_def)
  then obtain ls3 where "tick_alpha (dtAlpha now c1) (c2, ls2) = Inr ls3" ..
  then show ?thesis using s y by (simp add: tick_rest_def Let_def)
qed

lemma tick_rest_stop_fails:
  assumes "xFinished c1" "yFinished c1" "alphaFinished c1"
    and "ls1 = [] \<or> lines_h (last ls1) = []"
  shows "tick_rest now (c1, ls1) = Inl EmptyAccess"
proof -
  have "tick_stop (c1, ls1) = Inl EmptyAccess"
    using assms by (auto simp: tick_stop_def Let_def)
  then show ?thesis by (simp add: tick_rest_def Let_def)
qed

lemma tick_rest_alpha_fails:
  assumes "0 \<le> dtAlpha now c1"
  shows "tick_rest now (c1, []) = Inl EmptyAccess"
proof (cases "tick_stop (c1, [])")
  case (Inl e)
  then have "e = EmptyAccess" by (auto simp: tick_stop_def Let_def split: if_splits)
  with Inl show ?thesis by (simp add: tick_rest_def Let_def)
next
  case (Inr cs)
  obtain c2 ls2 where
    y: "tick_y (dtAlpha now c1) (tick_x (xFinished c1) (dtX now c1) cs, []) = (c2, ls2)"
    by (cases "tick_y (dtAlpha now c1) (tick_x (xFinished c1) (dtX now c1) cs, [])")
  from tick_y_list[OF y] have "ls2 = []" by auto
  then have "tick_alpha (dtAlpha now c1) (c2, ls2) = Inl EmptyAccess"
    using assms dtAlpha_le1[of now c1] by (simp add: tick_alpha_def Let_def)
  then show ?thesis using Inr y by (simp add: tick_rest_def Let_def)
qed

text \<open>
  Claim C2. In a tick of a running animation that takes the retirement branch (alpha
  progress in \<open>[0, 1]\<close>) with the crossfade alpha value equal to 1, every group but the
  newest has alpha 0 and is removed from the front; the newest group of the list is not
  removed. After the tick the list is that one group, with alpha 1: it is not empty, and
  its alphas from front to back do not decrease.
\<close>

theorem tick_retires_faded_groups:
  assumes "animating (animation c)"
    and "tick_begin now fire (c, ls) = (c1, ls1)"
    and "tick now fire (c, ls) = Inr (c', ls')"
    and "0 \<le> dtAlpha now c1"
    and "a_cur (animValueYAlpha c') = 1"
  shows "ls' \<noteq> [] \<and> sorted (map alpha ls')
    \<and> (\<exists>g. ls' = [g] \<and> alpha g = 1 \<and> fixedAlpha g = fixedAlpha (last ls1)
          \<and> map absoluteValue (lines_h g) = map absoluteValue (lines_h (last ls1))
          \<and> map caption (lines_h g) = map caption (lines_h (last ls1)))"
proof -
  from assms(1,2,3) have r: "tick_rest now (c1, ls1) = Inr (c', ls')"
    by (simp add: tick_def)
  then obtain cs c2 ls2 where
    s: "tick_stop (c1, ls1) = Inr cs"
    and y: "tick_y (dtAlpha now c1) (tick_x (xFinished c1) (dtX now c1) cs, ls1) = (c2, ls2)"
    and a: "tick_alpha (dtAlpha now c1) (c2, ls2) = Inr ls'"
    and e: "c' = tick_end (yFinished c1) (alphaFinished c1) c2"
    by (auto simp: tick_rest_def Let_def split: sum.splits prod.splits)
  have v: "a_cur (animValueYAlpha c2) = 1"
    using assms(5) e by (simp add: tick_end_def split: if_splits)
  from tick_alpha_one[OF a assms(4) dtAlpha_le1 v]
  have l: "ls2 \<noteq> []" "ls' = [(last ls2)\<lparr>alpha := 1\<rparr>]" by simp_all
  from tick_y_list[OF y] l(1) have k: "ls1 \<noteq> []"
    "fixedAlpha (last ls2) = fixedAlpha (last ls1)"
    "map absoluteValue (lines_h (last ls2)) = map absoluteValue (lines_h (last ls1))"
    "map caption (lines_h (last ls2)) = map caption (lines_h (last ls1))"
    by auto
  show ?thesis using l(2) k by simp
qed

theorem tick_retires_faded_groups_witness:
  "\<exists>c' g. tick 300 id (crossfading, two_groups) = Inr (c', [g])
     \<and> alpha g = 1 \<and> fixedAlpha g = 1"
proof -
  obtain c' ls' where t: "tick 300 id (crossfading, two_groups) = Inr (c', ls')"
    and v: "a_cur (animValueYAlpha c') = 1"
    using crossfade_tick by blast
  have a: "animating (animation crossfading)" by (simp add: example_defs)
  have d: "0 \<le> dtAlpha 300 (crossfading\<lparr>dtCurrent := \<lparr>min_v = 0, max_v = 0\<rparr>\<rparr>)"
    by (simp add: dtAlpha_def example_defs kAlphaExpandingDuration_def)
  from tick_retires_faded_groups[OF a crossfade_begin t d v] t show ?thesis
    by (auto simp: two_groups_def two_lines_def)
qed

text \<open>
  Claim C10. Let \<open>(c1, ls1)\<close> be the state of a running animation after the first
  statements of \<^verbatim>\<open>tick\<close>. If the list is not empty and its newest group has gridlines,
  \<^verbatim>\<open>tick\<close> returns. If the three sub-animations are finished and the list is empty or
  the newest group has no gridline, the read of the first and last gridline is an access
  to an empty vector. If the alpha progress is in \<open>[0, 1]\<close> and the list is empty, the
  write of the newest group's alpha is such an access.
\<close>

theorem tick_needs_gridlines:
  assumes "animating (animation c)"
    and "tick_begin now fire (c, ls) = (c1, ls1)"
  shows "(ls1 \<noteq> [] \<and> lines_h (last ls1) \<noteq> [] \<longrightarrow> (\<exists>r. tick now fire (c, ls) = Inr r))
    \<and> (xFinished c1 \<and> yFinished c1 \<and> alphaFinished c1
         \<and> (ls1 = [] \<or> lines_h (last ls1) = [])
        \<longrightarrow> tick now fire (c, ls) = Inl EmptyAccess)
    \<and> (0 \<le> dtAlpha now c1 \<and> ls1 = [] \<longrightarrow> tick now fire (c, ls) = Inl EmptyAccess)"
proof -
  have t: "tick now fire (c, ls) = tick_rest now (c1, ls1)"
    using assms by (simp add: tick_def)
  show ?thesis
    unfolding t
    using tick_rest_returns[of ls1 now c1] tick_rest_stop_fails[of c1 ls1 now]
      tick_rest_alpha_fails[of now c1]
    by blast
qed

theorem tick_needs_gridlines_witness:
  "tick 0 id (start 0 ChartAnimationController_new, []) = Inl EmptyAccess
   \<and> tick 300 id (crossfading, []) = Inl EmptyAccess
   \<and> (\<exists>r. tick 300 id (crossfading, two_groups) = Inr r)"
proof -
  have a: "animating (animation (start 0 ChartAnimationController_new))"
    by (simp add: start_def example_defs)
  have b: "tick_begin 0 id (start 0 ChartAnimationController_new, [])
     = ((start 0 ChartAnimationController_new)\<lparr>dtCurrent := \<lparr>min_v = 0, max_v = 0\<rparr>\<rparr>, [])"
    by (simp add: tick_begin_def start_def example_defs Let_def kExpandingDelay_def)
  have f: "xFinished ((start 0 ChartAnimationController_new)\<lparr>dtCurrent := \<lparr>min_v = 0, max_v = 0\<rparr>\<rparr>)
    \<and> yFinished ((start 0 ChartAnimationController_new)\<lparr>dtCurrent := \<lparr>min_v = 0, max_v = 0\<rparr>\<rparr>)
    \<and> alphaFinished ((start 0 ChartAnimationController_new)\<lparr>dtCurrent := \<lparr>min_v = 0, max_v = 0\<rparr>\<rparr>)"
    by (simp add: xFinished_def yFinished_def alphaFinished_def isFinished_def start_def
        example_defs)
  have a2: "animating (animation crossfading)" by (simp add: example_defs)
  have d: "0 \<le> dtAlpha 300 (crossfading\<lparr>dtCurrent := \<lparr>min_v = 0, max_v = 0\<rparr>\<rparr>)"
    by (simp add: dtAlpha_def example_defs kAlphaExpandingDuration_def)
  have n: "two_groups \<noteq> [] \<and> lines_h (last two_groups) \<noteq> []"
    by (simp add: two_groups_def two_lines_def)
  from tick_needs_gridlines[OF a b] tick_needs_gridlines[OF a2 crossfade_begin_empty]
    tick_needs_gridlines[OF a2 crossfade_begin] f d n
  show ?thesis by blast
qed

section \<open>Properties of the chart view\<close>

lemma onX_cases:
  "onXPercentageLimitsChange mk l now clk w =
    (if now - lastHeightLimitsChanged w < 320
     then w\<lparr>animationController := setXPercentageLimits (chartData w) l now clk (animationController w)\<rparr>
     else w\<lparr>animationController :=
               resetAlpha (setXPercentageLimits (chartData w) l now clk (animationController w)),
            lastHeightLimitsChanged := now,
            horizontalLines := addHorizontalLine mk
               (finalHeightLimits (setXPercentageLimits (chartData w) l now clk (animationController w)))
               True (horizontalLines w)\<rparr>)"
  by (simp add: onXPercentageLimitsChange_def Let_def kHeightLimitsUpdateTimeout_def resetAlpha_def)

lemma addHorizontalLine_animated_length:
  "length (addHorizontalLine mk h True ls) = length ls + 1"
  by (simp add: addHorizontalLine_def Let_def)

lemma setX_keeps_alpha:
  "animValueYAlpha (setXPercentageLimits d l now clk c) = animValueYAlpha c
   \<and> alphaAnimationStartedAt (setXPercentageLimits d l now clk c) = alphaAnimationStartedAt c"
  by (simp add: ctl_defs Let_def)

lemma scenario_full_final:
  assumes "\<not> (a_to (animValueXMin c) = min_v \<lparr>min_v = 0, max_v = 1\<rparr>
      \<and> a_to (animValueXMax c) = max_v \<lparr>min_v = 0, max_v = (1::real)\<rparr>)"
  shows "finalHeightLimits (setXPercentageLimits scenario_chart \<lparr>min_v = 0, max_v = 1\<rparr> now clk c)
     = \<lparr>min_v = 5, max_v = 40\<rparr>"
  using assms
  by (auto simp: setXPercentageLimits_def chooseHeightSpeed_def retargetY_def retargetX_def
      Let_def anim_start_def scenario_full_idx scenario_full_min scenario_full_max)

lemma tick_begin_list:
  "snd (tick_begin now fire (c, ls))
   = (if yAnimationStartedAt c = 0 \<and> now - lastUserInteracted c \<ge> kExpandingDelay
      then snd (fire (c, ls)) else ls)"
  by (simp add: tick_begin_def Let_def split: prod.splits)

lemma onInteractionFinished_last:
  "snd (onInteractionFinished mk clock (c, ls)) \<noteq> []
   \<and> last (snd (onInteractionFinished mk clock (c, ls)))
       = mk (max_v (finalHeightLimits c)) (min_v (finalHeightLimits c)) True"
  by (simp add: onInteractionFinished_def addHorizontalLine_def Let_def resetAlpha_def)

lemma paintEvent_tick_returns:
  assumes "\<And>a b u. lines_h (mk a b u) \<noteq> []"
    and "horizontalLines w \<noteq> []" and "lines_h (last (horizontalLines w)) \<noteq> []"
  shows "\<exists>w'. paintEvent_tick mk now w = Inr w'"
proof (cases "animating (animation (animationController w))")
  case False
  then show ?thesis by (simp add: paintEvent_tick_def tick_def)
next
  case True
  obtain c1 ls1 where b: "tick_begin now (onInteractionFinished mk now)
      (animationController w, horizontalLines w) = (c1, ls1)"
    by (cases "tick_begin now (onInteractionFinished mk now)
      (animationController w, horizontalLines w)")
  have "ls1 = snd (tick_begin now (onInteractionFinished mk now)
      (animationController w, horizontalLines w))" using b by simp
  then have "ls1 \<noteq> [] \<and> lines_h (last ls1) \<noteq> []"
    using assms by (simp add: tick_begin_list onInteractionFinished_last)
  then obtain r where "tick_rest now (c1, ls1) = Inr r"
    using tick_rest_returns by blast
  then show ?thesis
    using True b by (cases r) (simp add: paintEvent_tick_def tick_def)
qed

text \<open>
  Claim C7, as amended. Two range-change events whose timestamps differ by less than the
  cooldown of 320 ms create at most one gridline group between them. When the first of
  them created a group, the second creates none and does not reset alpha: it changes the
  widget only by its call of \<^verbatim>\<open>setXPercentageLimits\<close>.
\<close>

theorem limits_change_throttled:
  assumes "\<bar>t2 - t1\<bar> < kHeightLimitsUpdateTimeout"
  shows "length (horizontalLines (onXPercentageLimitsChange mk l2 t2 k2
            (onXPercentageLimitsChange mk l1 t1 k1 w)))
          \<le> length (horizontalLines w) + 1
    \<and> (length (horizontalLines (onXPercentageLimitsChange mk l1 t1 k1 w))
          = length (horizontalLines w) + 1
       \<longrightarrow> onXPercentageLimitsChange mk l2 t2 k2 (onXPercentageLimitsChange mk l1 t1 k1 w)
           = (onXPercentageLimitsChange mk l1 t1 k1 w)
               \<lparr>animationController :=
                  setXPercentageLimits (chartData w) l2 t2 k2
                    (animationController (onXPercentageLimitsChange mk l1 t1 k1 w))\<rparr>
         \<and> animValueYAlpha (animationController (onXPercentageLimitsChange mk l2 t2 k2
              (onXPercentageLimitsChange mk l1 t1 k1 w)))
           = animValueYAlpha (animationController (onXPercentageLimitsChange mk l1 t1 k1 w))
         \<and> alphaAnimationStartedAt (animationController (onXPercentageLimitsChange mk l2 t2 k2
              (onXPercentageLimitsChange mk l1 t1 k1 w)))
           = alphaAnimationStartedAt (animationController (onXPercentageLimitsChange mk l1 t1 k1 w)))"
  using assms
  by (auto simp: onX_cases kHeightLimitsUpdateTimeout_def addHorizontalLine_animated_length
      setX_keeps_alpha)

theorem limits_change_throttled_witness:
  "\<bar>1100 - 1000\<bar> < kHeightLimitsUpdateTimeout
   \<and> length (horizontalLines (onXPercentageLimitsChange two_lines \<lparr>min_v = 0, max_v = 1/2\<rparr> 1000 1000
        (loaded_widget 0))) = 1
   \<and> length (horizontalLines (onXPercentageLimitsChange two_lines \<lparr>min_v = 0, max_v = 1\<rparr> 1100 1100
        (onXPercentageLimitsChange two_lines \<lparr>min_v = 0, max_v = 1/2\<rparr> 1000 1000
        (loaded_widget 0)))) = 1"
proof -
  have t: "\<bar>1100 - 1000\<bar> < kHeightLimitsUpdateTimeout"
    by (simp add: kHeightLimitsUpdateTimeout_def)
  have 1: "length (horizontalLines (onXPercentageLimitsChange two_lines
        \<lparr>min_v = 0, max_v = 1/2\<rparr> 1000 1000 (loaded_widget 0)))
      = length (horizontalLines (loaded_widget 0)) + 1"
    by (simp add: onX_cases loaded_widget_def ChartWidget_new_def addHorizontalLine_animated_length)
  have 0: "horizontalLines (loaded_widget 0) = []"
    by (simp add: loaded_widget_def ChartWidget_new_def)
  from limits_change_throttled[OF t, of two_lines "\<lparr>min_v = 0, max_v = 1\<rparr>" 1100
      "\<lparr>min_v = 0, max_v = 1/2\<rparr>" 1000 "loaded_widget 0"] 1 t
  show ?thesis by (simp add: 0)
qed

text \<open>
  The second event can create a group: after a group created at time 1000, an event at
  1319 is throttled and an event at 1320, one millisecond later, creates a group.
\<close>

theorem second_change_spawns_group:
  "\<bar>1320 - 1319\<bar> < kHeightLimitsUpdateTimeout
   \<and> horizontalLines (onXPercentageLimitsChange two_lines \<lparr>min_v = 0, max_v = 1/2\<rparr> 1319 1319
        (loaded_widget 1000)) = []
   \<and> horizontalLines (onXPercentageLimitsChange two_lines \<lparr>min_v = 0, max_v = 1\<rparr> 1320 1320
        (onXPercentageLimitsChange two_lines \<lparr>min_v = 0, max_v = 1/2\<rparr> 1319 1319
        (loaded_widget 1000))) = [two_lines 40 5 True]
   \<and> lastHeightLimitsChanged (onXPercentageLimitsChange two_lines \<lparr>min_v = 0, max_v = 1\<rparr> 1320 1320
        (onXPercentageLimitsChange two_lines \<lparr>min_v = 0, max_v = 1/2\<rparr> 1319 1319
        (loaded_widget 1000))) = 1320"
proof -
  let ?c1 = "setXPercentageLimits scenario_chart \<lparr>min_v = 0, max_v = 1/2\<rparr> 1319 1319
      ChartAnimationController_new"
  have n: "\<not> (a_to (animValueXMin ?c1) = min_v \<lparr>min_v = 0, max_v = 1\<rparr>
      \<and> a_to (animValueXMax ?c1) = max_v \<lparr>min_v = 0, max_v = (1::real)\<rparr>)"
    using xtargets_after[of scenario_chart "\<lparr>min_v = 0, max_v = 1/2\<rparr>" 1319 1319
        ChartAnimationController_new] by simp
  have f: "finalHeightLimits (setXPercentageLimits scenario_chart \<lparr>min_v = 0, max_v = 1\<rparr>
      1320 1320 ?c1) = \<lparr>min_v = 5, max_v = 40\<rparr>"
    by (simp add: scenario_full_final[OF n])
  show ?thesis
    by (simp add: onX_cases loaded_widget_def ChartWidget_new_def kHeightLimitsUpdateTimeout_def
        f addHorizontalLine_def)
qed

text \<open>
  On a widget whose X targets are not already \<open>(0, 1)\<close> (those of a new widget are
  \<open>(0, 0)\<close>), \<^verbatim>\<open>setChartData\<close> with a chart of five samples whose fractions run from 0 to
  1, with the single line 10, 20, 5, 40, 15 and index lookups that map the full range to
  the indices 0 to 4, leaves the animation stopped, the current X limits \<open>(0, 1)\<close>, the
  current Y limits \<open>(5, 40)\<close> and exactly one gridline group, with alpha 1.
\<close>

lemma setChartData_first_load:
  assumes "length (xPercentage d) = 5"
    and "hd (xPercentage d) = 0" and "last (xPercentage d) = 1"
    and "lines d = [\<lparr>segmentTree = [10, 20, 5, 40, 15]\<rparr>]"
    and "findStartIndex d 0 = 0" and "findEndIndex d 0 1 = 4"
    and "\<not> (a_to (animValueXMin (animationController w)) = 0
            \<and> a_to (animValueXMax (animationController w)) = 1)"
  shows "\<exists>w'. setChartData mk d clk w = Inr w'
      \<and> currentXLimits (animationController w') = \<lparr>min_v = 0, max_v = 1\<rparr>
      \<and> currentHeightLimits (animationController w') = \<lparr>min_v = 5, max_v = 40\<rparr>
      \<and> \<not> animating (animation (animationController w'))
      \<and> horizontalLines w' = [(mk 40 5 True)\<lparr>alpha := 1\<rparr>]
      \<and> length (horizontalLines w') = 1 \<and> alpha (last (horizontalLines w')) = 1"
proof -
  have mn: "FindMinValue d 0 4 = 5"
    by (simp add: FindMinValue_def rMinQ_def segment_def assms(4) INT_MAX_def)
  have mx: "FindMaxValue d 0 4 = 40"
    by (simp add: FindMaxValue_def rMaxQ_def segment_def assms(4) INT_MIN_def)
  have ne: "xPercentage d \<noteq> []" using assms(1) by auto
  let ?c = "setXPercentageLimits d \<lparr>min_v = 0, max_v = 1\<rparr> 0 clk (animationController w)"
  have c: "?c = chooseHeightSpeed (retargetY d (retargetX \<lparr>min_v = 0, max_v = 1\<rparr> 0
               (start clk (animationController w))))"
    using assms(7) by (auto simp: setXPercentageLimits_def)
  have f: "finalHeightLimits ?c = \<lparr>min_v = 5, max_v = 40\<rparr>"
    "a_to (animValueYMin ?c) = 5" "a_to (animValueYMax ?c) = 40"
    "a_to (animValueXMin ?c) = 0" "a_to (animValueXMax ?c) = 1"
    unfolding c
    by (simp_all add: chooseHeightSpeed_def retargetY_def retargetX_def Let_def anim_start_def
        anim_value2_def assms(5,6) mn mx)
  show ?thesis
    using ne f
    by (simp add: setChartData_def Let_def assms(2,3) finish_def anim_finish_def
        currentXLimits_def currentHeightLimits_def addHorizontalLine_def)
qed

lemma setChartData_first_load_fresh:
  "\<exists>w'. setChartData two_lines scenario_chart 0 ChartWidget_new = Inr w'
      \<and> currentXLimits (animationController w') = \<lparr>min_v = 0, max_v = 1\<rparr>
      \<and> currentHeightLimits (animationController w') = \<lparr>min_v = 5, max_v = 40\<rparr>
      \<and> horizontalLines w' = [(two_lines 40 5 True)\<lparr>alpha := 1\<rparr>]"
proof -
  have 1: "length (xPercentage scenario_chart) = 5" "hd (xPercentage scenario_chart) = 0"
    "last (xPercentage scenario_chart) = 1"
    "lines scenario_chart = [\<lparr>segmentTree = [10, 20, 5, 40, 15]\<rparr>]"
    "findStartIndex scenario_chart 0 = 0" "findEndIndex scenario_chart 0 1 = 4"
    by (simp_all add: scenario_chart_def)
  have 2: "\<not> (a_to (animValueXMin (animationController ChartWidget_new)) = 0
            \<and> a_to (animValueXMax (animationController ChartWidget_new)) = 1)"
    by (simp add: ChartWidget_new_def ChartAnimationController_new_def anim_default_def)
  from setChartData_first_load[OF 1 2, of two_lines 0] show ?thesis by blast
qed

lemma other_chart_final:
  "finalHeightLimits (setXPercentageLimits other_chart \<lparr>min_v = 0, max_v = 1\<rparr> 0 0
      ChartAnimationController_new) = \<lparr>min_v = 1, max_v = 100\<rparr>"
  by (simp add: setXPercentageLimits_def chooseHeightSpeed_def retargetY_def retargetX_def
      Let_def anim_start_def start_def ChartAnimationController_new_def anim_default_def
      other_chart_def FindMinValue_def FindMaxValue_def rMinQ_def rMaxQ_def segment_def
      INT_MAX_def INT_MIN_def)

lemma finish_finish: "finish (finish c) = finish c"
  by (simp add: finish_def anim_finish_def)

lemma finish_keeps_final: "finalHeightLimits (finish c) = finalHeightLimits c"
  by (simp add: finish_def)

lemma shown_widget_targets:
  "a_to (animValueXMin (animationController shown_widget)) = 0
   \<and> a_to (animValueXMax (animationController shown_widget)) = 1
   \<and> a_to (animValueYMin (animationController shown_widget)) = 1
   \<and> a_to (animValueYMax (animationController shown_widget)) = 100"
  using xtargets_after[of other_chart "\<lparr>min_v = 0, max_v = 1\<rparr>" 0 0 ChartAnimationController_new]
  by (simp add: shown_widget_def finish_def anim_finish_def)
    (simp add: setXPercentageLimits_def chooseHeightSpeed_def retargetY_def retargetX_def
      Let_def anim_start_def anim_value2_def start_def ChartAnimationController_new_def
      anim_default_def other_chart_def FindMinValue_def FindMaxValue_def rMinQ_def rMaxQ_def
      segment_def INT_MAX_def INT_MIN_def)

text \<open>
  Claim C9 at a concrete input. A new widget is first given a chart of two samples with
  the values 1 and 100, whose fractions run from 0 to 1: it shows the Y limits
  \<open>(1, 100)\<close>. \<^verbatim>\<open>setChartData\<close> with the chart of five samples 10, 20, 5, 40, 15 then
  replaces the data and nothing else: the X targets already are \<open>(0, 1)\<close>, so
  \<^verbatim>\<open>setXPercentageLimits\<close> returns at once, the current Y limits stay \<open>(1, 100)\<close> instead of
  \<open>(5, 40)\<close>, and the one gridline group is built from the limits \<open>(1, 100)\<close>.
\<close>

theorem setChartData_reload_keeps_stale_limits:
  "setChartData two_lines other_chart 0 ChartWidget_new = Inr shown_widget
   \<and> setChartData two_lines scenario_chart 0 shown_widget
       = Inr (shown_widget\<lparr>chartData := scenario_chart\<rparr>)
   \<and> currentXLimits (animationController (shown_widget\<lparr>chartData := scenario_chart\<rparr>))
       = \<lparr>min_v = 0, max_v = 1\<rparr>
   \<and> currentHeightLimits (animationController (shown_widget\<lparr>chartData := scenario_chart\<rparr>))
       = \<lparr>min_v = 1, max_v = 100\<rparr>
   \<and> horizontalLines (shown_widget\<lparr>chartData := scenario_chart\<rparr>)
       = [(two_lines 100 1 True)\<lparr>alpha := 1\<rparr>]"
proof -
  have xo: "hd (xPercentage other_chart) = 0" "last (xPercentage other_chart) = 1"
    "xPercentage other_chart \<noteq> []"
    by (simp_all add: other_chart_def)
  have 1: "setChartData two_lines other_chart 0 ChartWidget_new = Inr shown_widget"
    by (simp add: setChartData_def Let_def shown_widget_def ChartWidget_new_def
        addHorizontalLine_def finish_keeps_final other_chart_final xo)
  have n: "setXPercentageLimits scenario_chart \<lparr>min_v = 0, max_v = 1\<rparr> 0 0
      (animationController shown_widget) = animationController shown_widget"
    using shown_widget_targets by (simp add: setXPercentageLimits_def)
  have c: "animationController shown_widget
      = finish (setXPercentageLimits other_chart \<lparr>min_v = 0, max_v = 1\<rparr> 0 0
          ChartAnimationController_new)"
    by (simp add: shown_widget_def)
  have x: "hd (xPercentage scenario_chart) = 0" "last (xPercentage scenario_chart) = 1"
    "xPercentage scenario_chart \<noteq> []"
    by (simp_all add: scenario_chart_def)
  have 2: "setChartData two_lines scenario_chart 0 shown_widget
       = Inr (shown_widget\<lparr>chartData := scenario_chart\<rparr>)"
    by (simp add: setChartData_def Let_def x n)
      (simp add: c finish_finish finish_keeps_final other_chart_final addHorizontalLine_def
        shown_widget_def)
  have 3: "currentXLimits (animationController shown_widget) = \<lparr>min_v = 0, max_v = 1\<rparr>"
    "currentHeightLimits (animationController shown_widget) = \<lparr>min_v = 1, max_v = 100\<rparr>"
    using shown_widget_targets
    by (simp_all add: currentXLimits_def currentHeightLimits_def shown_widget_def finish_def
        anim_finish_def)
  show ?thesis using 1 2 3 by (simp add: shown_widget_def)
qed

end
